theory Spec2Isabelle
  imports Complex_Main
begin

unbundle bit_operations_syntax

section \<open>The cohesive granular pair style \<open>PairCFM\<close> (pair_gran_cfm.cpp)\<close>

text \<open>
  The embedding follows \<open>PairCFM::settings\<close> and \<open>PairCFM::compute\<close>.
  A C \<open>double\<close> is idealised as a \<open>real\<close>: \<open>sqrt\<close>, \<open>fabs\<close>, \<open>fmin\<close> and
  \<open>M_PI\<close> are the real square root, absolute value, minimum and \<open>pi\<close>, and no
  rounding is modelled. A division whose divisor is zero has no real value, so it is an
  outcome of its own (\<open>DivByZero\<close>). C \<open>int\<close> and \<open>bigint\<close> values are
  \<open>int\<close>; arrays owned by other classes (\<open>atom->x\<close>, the neighbour lists, the
  history fix) are total functions of their index. The three bond tables are allocated by
  \<open>compute\<close> itself with \<open>inum\<close> rows and columns; an access outside
  that range is the outcome \<open>OutOfBounds\<close>.

  Names follow the source: \<open>atom->x\<close> is \<open>atom_x\<close>, \<open>update->ntimestep\<close> is
  \<open>update_ntimestep\<close>, \<open>fix_history->firstflag\<close> is \<open>firstflag\<close>. The
  members \<open>_t\<close>, \<open>_c\<close>, \<open>_enlargeFactor\<close>, \<open>_D\<close>, \<open>_Dinitial\<close>
  and \<open>_Dtensile\<close> start with an underscore in the source and are written with the
  prefix \<open>m\<close> here.
\<close>

datatype error = IllegalPairStyle | NotNumeric | DivByZero | OutOfBounds

subsection \<open>Configuration: \<open>PairCFM::settings\<close>\<close>

record config =
  kn :: real
  kt :: real
  gamman :: real
  gammat :: real
  xmu :: real
  dampflag :: int
  m_t :: real
  m_c :: real
  m_enlargeFactor :: real

text \<open>
  \<open>force->numeric\<close> and \<open>force->inumeric\<close> are not part of this file; they are
  parameters here. Each one either yields the number a string denotes or stops the run
  with an error (\<open>None\<close>).
\<close>

definition numeric_arg :: "(string \<Rightarrow> 'a option) \<Rightarrow> string \<Rightarrow> error + 'a" where
  "numeric_arg numeric s = (case numeric s of None \<Rightarrow> Inl NotNumeric | Some a \<Rightarrow> Inr a)"

definition bind_err :: "error + 'a \<Rightarrow> ('a \<Rightarrow> error + 'b) \<Rightarrow> error + 'b" where
  "bind_err m k = (case m of Inl e \<Rightarrow> Inl e | Inr a \<Rightarrow> k a)"

definition settings ::
  "(string \<Rightarrow> real option) \<Rightarrow> (string \<Rightarrow> int option) \<Rightarrow> string list \<Rightarrow> error + config" where
  "settings numeric inumeric arg =
     (if length arg \<noteq> 9 then Inl IllegalPairStyle
      else
        bind_err (numeric_arg numeric (arg ! 0)) (\<lambda>kn'.
        bind_err (if arg ! 1 = ''NULL'' then Inr (kn' * 2 / 7)
                  else numeric_arg numeric (arg ! 1)) (\<lambda>kt'.
        bind_err (numeric_arg numeric (arg ! 2)) (\<lambda>gamman'.
        bind_err (if arg ! 3 = ''NULL'' then Inr (0.5 * gamman')
                  else numeric_arg numeric (arg ! 3)) (\<lambda>gammat0.
        bind_err (numeric_arg numeric (arg ! 4)) (\<lambda>xmu'.
        bind_err (numeric_arg inumeric (arg ! 5)) (\<lambda>dampflag'.
        let gammat' = (if dampflag' = 0 then 0 else gammat0) in
        bind_err (numeric_arg numeric (arg ! 6)) (\<lambda>t'.
        bind_err (numeric_arg numeric (arg ! 7)) (\<lambda>c'.
        bind_err (numeric_arg numeric (arg ! 8)) (\<lambda>enlargeFactor'.
        if kn' < 0 \<or> kt' < 0 \<or> gamman' < 0 \<or> gammat' < 0 \<or>
           xmu' < 0 \<or> xmu' > 10000 \<or> dampflag' < 0 \<or> c' < 0 \<or> t' < 0 \<or>
           enlargeFactor' < 0 \<or> dampflag' > 1
        then Inl IllegalPairStyle
        else Inr \<lparr>kn = kn', kt = kt', gamman = gamman', gammat = gammat', xmu = xmu',
                  dampflag = dampflag', m_t = t', m_c = c',
                  m_enlargeFactor = enlargeFactor'\<rparr>))))))))))"

text \<open>
  A finite sample of what \<open>force->numeric\<close> and \<open>force->inumeric\<close> return, for
  evaluating \<open>settings\<close> on concrete argument lists.
\<close>

definition sample_numeric :: "string \<Rightarrow> real option" where
  "sample_numeric = map_of [(''0'', 0), (''1'', 1), (''2'', 2), (''-1'', -1), (''7'', 7)]"

definition sample_inumeric :: "string \<Rightarrow> int option" where
  "sample_inumeric = map_of [(''0'', 0), (''1'', 1), (''2'', 2), (''-1'', -1)]"

subsection \<open>The data \<open>PairCFM::compute\<close> works on\<close>

text \<open>What \<open>compute\<close> only reads: the atom arrays, the neighbour list, the step
  counter, and the members set by \<open>init_style\<close>.\<close>

record world =
  update_ntimestep :: int
  atom_x :: "int \<Rightarrow> int \<Rightarrow> real"
  atom_v :: "int \<Rightarrow> int \<Rightarrow> real"
  atom_omega :: "int \<Rightarrow> int \<Rightarrow> real"
  atom_radius :: "int \<Rightarrow> real"
  atom_rmass :: "int \<Rightarrow> real"
  atom_mask :: "int \<Rightarrow> int"
  atom_tag :: "int \<Rightarrow> int"
  atom_nlocal :: int
  force_newton_pair :: int
  list_ilist :: "int list"
  list_firstneigh :: "int \<Rightarrow> int list"
  NEIGHMASK :: int
  fix_rigid :: bool
  mass_rigid :: "int \<Rightarrow> real"
  freeze_group_bit :: int
  dt :: real

text \<open>What \<open>compute\<close> writes: the force and torque accumulators, the history fix's
  flags (\<open>firstflag\<close>) and values (\<open>firstvalue\<close>, one flat array of doubles
  per atom), and the pair style's own tables with their dimension \<open>tdim\<close>.\<close>

record state =
  atom_f :: "int \<Rightarrow> int \<Rightarrow> real"
  atom_torque :: "int \<Rightarrow> int \<Rightarrow> real"
  firstflag :: "int \<Rightarrow> int \<Rightarrow> int"
  firstvalue :: "int \<Rightarrow> int \<Rightarrow> real"
  tdim :: int
  is_cohesive :: "int \<Rightarrow> int \<Rightarrow> bool"
  m_Dinitial :: "int \<Rightarrow> int \<Rightarrow> real"
  m_Dtensile :: "int \<Rightarrow> int \<Rightarrow> real"
  m_D :: real

text \<open>\<open>a[i][j] = v\<close> and \<open>a[i][j] += d\<close> on a two-dimensional array.\<close>

definition set2 :: "(int \<Rightarrow> int \<Rightarrow> 'a) \<Rightarrow> int \<Rightarrow> int \<Rightarrow> 'a \<Rightarrow> (int \<Rightarrow> int \<Rightarrow> 'a)" where
  "set2 a i j v = a(i := (a i)(j := v))"

definition add2 :: "(int \<Rightarrow> int \<Rightarrow> real) \<Rightarrow> int \<Rightarrow> int \<Rightarrow> real \<Rightarrow> (int \<Rightarrow> int \<Rightarrow> real)" where
  "add2 a i j d = set2 a i j (a i j + d)"

text \<open>\<open>_history = &allshear[3*jj]\<close> with \<open>allshear = firstshear[i]\<close>: the scalar
  \<open>_history[k]\<close> of neighbour slot \<open>jj\<close> of atom \<open>i\<close> is
  \<open>firstvalue[i][3*jj + k]\<close>.\<close>

definition history :: "state \<Rightarrow> int \<Rightarrow> int \<Rightarrow> int \<Rightarrow> real" where
  "history st i jj k = firstvalue st i (3 * jj + k)"

definition history_set :: "int \<Rightarrow> int \<Rightarrow> int \<Rightarrow> real \<Rightarrow> state \<Rightarrow> state" where
  "history_set i jj k v st = st\<lparr>firstvalue := set2 (firstvalue st) i (3 * jj + k) v\<rparr>"

definition touch_set :: "int \<Rightarrow> int \<Rightarrow> int \<Rightarrow> state \<Rightarrow> state" where
  "touch_set i jj v st = st\<lparr>firstflag := set2 (firstflag st) i jj v\<rparr>"

text \<open>The block \<open>touch[jj] = 0; _history[0] = 0.0; _history[1] = 0.0; _history[2] = 0.0;\<close>
  that the source repeats.\<close>

definition unset_contact :: "int \<Rightarrow> int \<Rightarrow> state \<Rightarrow> state" where
  "unset_contact i jj st =
     history_set i jj 2 0 (history_set i jj 1 0 (history_set i jj 0 0 (touch_set i jj 0 st)))"

text \<open>Both directions of one table entry.\<close>

definition set_both :: "(int \<Rightarrow> int \<Rightarrow> 'a) \<Rightarrow> int \<Rightarrow> int \<Rightarrow> 'a \<Rightarrow> (int \<Rightarrow> int \<Rightarrow> 'a)" where
  "set_both a p q v = set2 (set2 a p q v) q p v"

definition clear_bond :: "int \<Rightarrow> int \<Rightarrow> state \<Rightarrow> state" where
  "clear_bond ID1 ID2 st =
     st\<lparr>is_cohesive := set_both (is_cohesive st) (ID1 - 1) (ID2 - 1) False\<rparr>"

definition in_table :: "state \<Rightarrow> int \<Rightarrow> int \<Rightarrow> bool" where
  "in_table st p q = (0 \<le> p \<and> p < tdim st \<and> 0 \<le> q \<and> q < tdim st)"

text \<open>The locals that the loop body computes first (lines 177 to 195).\<close>

record pair =
  ID1 :: int
  ID2 :: int
  delx :: real
  dely :: real
  delz :: real
  rsq :: real
  radi :: real
  radj :: real
  radsum :: real
  r :: real
  radmin :: real

definition pair_geom :: "world \<Rightarrow> int \<Rightarrow> int \<Rightarrow> pair" where
  "pair_geom w i j =
     (let dx = atom_x w i 0 - atom_x w j 0;
          dy = atom_x w i 1 - atom_x w j 1;
          dz = atom_x w i 2 - atom_x w j 2;
          rs = dx * dx + dy * dy + dz * dz
      in \<lparr>ID1 = atom_tag w i, ID2 = atom_tag w j,
          delx = dx, dely = dy, delz = dz, rsq = rs,
          radi = atom_radius w i, radj = atom_radius w j,
          radsum = atom_radius w i + atom_radius w j,
          r = sqrt rs,
          radmin = min (atom_radius w j) (atom_radius w i)\<rparr>)"

subsection \<open>The loop body of \<open>PairCFM::compute\<close>\<close>

text \<open>Lines 199 to 218: on a step with \<open>update->ntimestep < 1\<close> the bond of the
  pair is created or refused. The result carries the local \<open>_ignore\<close>, which starts
  at 1.\<close>

definition create_bonds :: "config \<Rightarrow> world \<Rightarrow> int \<Rightarrow> int \<Rightarrow> pair \<Rightarrow> state \<Rightarrow> error + state \<times> int" where
  "create_bonds cfg w i jj g st =
     (if update_ntimestep w < 1 then
        (if r g \<le> radsum g + (m_enlargeFactor cfg - 1) * radmin g then
           (if kn cfg = 0 then Inl DivByZero
            else Inr (st\<lparr>is_cohesive := set_both (is_cohesive st) (ID1 g - 1) (ID2 g - 1) True,
                         m_Dinitial := set_both (m_Dinitial st) (ID1 g - 1) (ID2 g - 1)
                                         (radsum g - r g),
                         m_Dtensile := set_both (m_Dtensile st) (ID2 g - 1) (ID1 g - 1)
                                         ((pi * radmin g * m_t cfg) / kn cfg)\<rparr>, 1))
         else Inr ((touch_set i jj 0 st)
                     \<lparr>is_cohesive := set_both (is_cohesive st) (ID1 g - 1) (ID2 g - 1) False,
                      m_Dinitial := set_both (m_Dinitial st) (ID1 g - 1) (ID2 g - 1) 0,
                      m_Dtensile := set_both (m_Dtensile st) (ID2 g - 1) (ID1 g - 1) 0\<rparr>, - 1))
      else Inr (st, 1))"

text \<open>Lines 220 to 230: an unbonded pair whose centres are further apart than the sum
  of the radii.\<close>

definition unset_nontouching :: "int \<Rightarrow> int \<Rightarrow> pair \<Rightarrow> state \<times> int \<Rightarrow> state \<times> int" where
  "unset_nontouching i jj g si =
     (case si of (st, ignore) \<Rightarrow>
        if \<not> is_cohesive st (ID1 g - 1) (ID2 g - 1) \<and> r g > radsum g
        then (unset_contact i jj st, - 1)
        else (st, ignore))"

text \<open>Lines 232 to 255: the stretch \<open>_D\<close> and the tensile failure.\<close>

definition tensile_check :: "int \<Rightarrow> int \<Rightarrow> pair \<Rightarrow> state \<times> int \<Rightarrow> state \<times> int" where
  "tensile_check i jj g si =
     (case si of (st0, ignore0) \<Rightarrow>
        let st = st0\<lparr>m_D := (radsum g - r g) - m_Dinitial st0 (ID1 g - 1) (ID2 g - 1)\<rparr> in
        if m_D st < 0 then
          (case (if \<not> is_cohesive st (ID1 g - 1) (ID2 g - 1)
                 then (unset_contact i jj st, - 1)
                 else (st, ignore0)) of (st1, ignore1) \<Rightarrow>
             if \<bar>m_D st1\<bar> \<ge> m_Dtensile st1 (ID1 g - 1) (ID2 g - 1)
                \<and> is_cohesive st1 (ID1 g - 1) (ID2 g - 1)
             then (let sa = unset_contact i jj st1
                   in clear_bond (ID1 g) (ID2 g)
                        (history_set i jj 5 (history sa i jj 5 + 1) sa), - 1)
             else (st1, ignore1))
        else (st, ignore0))"

text \<open>Lines 258 to 312: the inverse distances, the relative velocities, the effective
  mass and the normal force coefficient \<open>ccel\<close>. The local \<open>vrel\<close> is computed
  by the source and never read; it is left out.\<close>

record kin =
  rinv :: real
  rsqinv :: real
  vnnr :: real
  meff :: real
  ccel :: real
  vtr1 :: real
  vtr2 :: real
  vtr3 :: real

definition pair_mi :: "world \<Rightarrow> int \<Rightarrow> real" where
  "pair_mi w i =
     (if fix_rigid w \<and> mass_rigid w i > 0 then mass_rigid w i else atom_rmass w i)"

definition kinematics :: "config \<Rightarrow> world \<Rightarrow> int \<Rightarrow> int \<Rightarrow> pair \<Rightarrow> state \<Rightarrow> error + kin" where
  "kinematics cfg w i j g st =
     (if r g = 0 then Inl DivByZero
      else if rsq g = 0 then Inl DivByZero
      else
        let rinv' = 1 / r g;
            rsqinv' = 1 / rsq g;
            vr1 = atom_v w i 0 - atom_v w j 0;
            vr2 = atom_v w i 1 - atom_v w j 1;
            vr3 = atom_v w i 2 - atom_v w j 2;
            vnnr' = vr1 * delx g + vr2 * dely g + vr3 * delz g;
            vn1 = delx g * vnnr' * rsqinv';
            vn2 = dely g * vnnr' * rsqinv';
            vn3 = delz g * vnnr' * rsqinv';
            vt1 = vr1 - vn1;
            vt2 = vr2 - vn2;
            vt3 = vr3 - vn3;
            wr1 = (radi g * atom_omega w i 0 + radj g * atom_omega w j 0) * rinv';
            wr2 = (radi g * atom_omega w i 1 + radj g * atom_omega w j 1) * rinv';
            wr3 = (radi g * atom_omega w i 2 + radj g * atom_omega w j 2) * rinv';
            mi = pair_mi w i;
            mj = pair_mi w j
        in if mi + mj = 0 then Inl DivByZero
           else
             let meff0 = mi * mj / (mi + mj);
                 meff1 = (if atom_mask w i AND freeze_group_bit w \<noteq> 0 then mj else meff0);
                 meff' = (if atom_mask w j AND freeze_group_bit w \<noteq> 0 then mi else meff1);
                 damp = meff' * gamman cfg * vnnr' * rsqinv';
                 ccel' = kn cfg * m_D st * rinv' - damp
             in Inr \<lparr>rinv = rinv', rsqinv = rsqinv', vnnr = vnnr', meff = meff', ccel = ccel',
                      vtr1 = vt1 - (delz g * wr2 - dely g * wr3),
                      vtr2 = vt2 - (delx g * wr3 - delz g * wr1),
                      vtr3 = vt3 - (dely g * wr1 - delx g * wr2)\<rparr>)"

text \<open>Lines 316 to 338: the shear history is advanced and rotated, and the tangential
  force is computed from it. The result is the state with \<open>shrmag\<close> and
  \<open>fs1, fs2, fs3\<close>.\<close>

definition shear_update ::
  "config \<Rightarrow> world \<Rightarrow> int \<Rightarrow> int \<Rightarrow> pair \<Rightarrow> kin \<Rightarrow> state \<Rightarrow> state \<times> real \<times> real \<times> real \<times> real" where
  "shear_update cfg w i jj g k st =
     (let sa = touch_set i jj 1 st;
          sb = history_set i jj 0 (history sa i jj 0 + vtr1 k * dt w) sa;
          sc = history_set i jj 1 (history sb i jj 1 + vtr2 k * dt w) sb;
          sd = history_set i jj 2 (history sc i jj 2 + vtr3 k * dt w) sc;
          shrmag = sqrt (history sd i jj 0 * history sd i jj 0
                         + history sd i jj 1 * history sd i jj 1
                         + history sd i jj 2 * history sd i jj 2);
          rsht = (history sd i jj 0 * delx g + history sd i jj 1 * dely g
                  + history sd i jj 2 * delz g) * rsqinv k;
          se = history_set i jj 0 (history sd i jj 0 - rsht * delx g) sd;
          sf = history_set i jj 1 (history se i jj 1 - rsht * dely g) se;
          sg = history_set i jj 2 (history sf i jj 2 - rsht * delz g) sf
      in (sg, shrmag,
          - (kt cfg * history sg i jj 0 + meff k * gammat cfg * vtr1 k),
          - (kt cfg * history sg i jj 1 + meff k * gammat cfg * vtr2 k),
          - (kt cfg * history sg i jj 2 + meff k * gammat cfg * vtr3 k)))"

text \<open>Lines 342 to 349: the limit \<open>fn\<close> of the tangential force. The member
  \<open>_maxShearForce\<close> is written and read only here and is not kept in the state.\<close>

definition fn_limit :: "config \<Rightarrow> pair \<Rightarrow> kin \<Rightarrow> state \<Rightarrow> real" where
  "fn_limit cfg g k st =
     (if is_cohesive st (ID1 g - 1) (ID2 g - 1)
      then xmu cfg * \<bar>ccel k * r g\<bar> + pi * radmin g * m_c cfg
      else xmu cfg * \<bar>ccel k * r g\<bar>)"

text \<open>Lines 351 to 380: the tangential force is compared with the limit; at or above
  it, displacement and force are rescaled, and a bonded pair loses its bond.\<close>

definition rescale ::
  "config \<Rightarrow> int \<Rightarrow> int \<Rightarrow> pair \<Rightarrow> kin \<Rightarrow> real \<Rightarrow> real \<times> real \<times> real \<Rightarrow> state
     \<Rightarrow> error + state \<times> real \<times> real \<times> real" where
  "rescale cfg i jj g k shrmag fsv st =
     (case fsv of (fs1, fs2, fs3) \<Rightarrow>
      let fn = fn_limit cfg g k st;
          fs = sqrt (fs1 * fs1 + fs2 * fs2 + fs3 * fs3)
      in if fs \<ge> fn then
           bind_err
             (if shrmag \<noteq> 0 then
                (if fs = 0 \<or> kt cfg = 0 then Inl DivByZero
                 else
                   let sa = history_set i jj 0
                              ((fn / fs) * (history st i jj 0 + meff k * gammat cfg * vtr1 k / kt cfg)
                               - meff k * gammat cfg * vtr1 k / kt cfg) st;
                       sb = history_set i jj 1
                              ((fn / fs) * (history sa i jj 1 + meff k * gammat cfg * vtr2 k / kt cfg)
                               - meff k * gammat cfg * vtr2 k / kt cfg) sa;
                       sc = history_set i jj 2
                              ((fn / fs) * (history sb i jj 2 + meff k * gammat cfg * vtr3 k / kt cfg)
                               - meff k * gammat cfg * vtr3 k / kt cfg) sb
                   in Inr (sc, fs1 * (fn / fs), fs2 * (fn / fs), fs3 * (fn / fs)))
              else Inr (st, 0, 0, 0))
             (\<lambda>(s1, f1, f2, f3).
                if is_cohesive s1 (ID1 g - 1) (ID2 g - 1) then
                  (let s2 = clear_bond (ID1 g) (ID2 g)
                              (history_set i jj 6 (history s1 i jj 6 + 1) s1)
                   in if rsq g > radsum g * radsum g
                      then Inr (unset_contact i jj s2, 0, 0, 0)
                      else Inr (s2, f1, f2, f3))
                else Inr (s1, f1, f2, f3))
         else Inr (st, fs1, fs2, fs3))"

text \<open>Lines 384 to 405: force and torque are added to atom \<open>i\<close> and, when
  \<open>newton_pair || j < nlocal\<close>, to atom \<open>j\<close>.\<close>

definition accumulate ::
  "world \<Rightarrow> int \<Rightarrow> int \<Rightarrow> pair \<Rightarrow> kin \<Rightarrow> real \<times> real \<times> real \<Rightarrow> state \<Rightarrow> state" where
  "accumulate w i j g k fsv st =
     (case fsv of (fs1, fs2, fs3) \<Rightarrow>
      let fx = delx g * ccel k + fs1;
          fy = dely g * ccel k + fs2;
          fz = delz g * ccel k + fs3;
          tor1 = rinv k * (dely g * fs3 - delz g * fs2);
          tor2 = rinv k * (delz g * fs1 - delx g * fs3);
          tor3 = rinv k * (delx g * fs2 - dely g * fs1);
          sa = st\<lparr>atom_f := add2 (add2 (add2 (atom_f st) i 0 fx) i 1 fy) i 2 fz,
                  atom_torque := add2 (add2 (add2 (atom_torque st) i 0 (- (radi g * tor1)))
                                         i 1 (- (radi g * tor2))) i 2 (- (radi g * tor3))\<rparr>
      in if force_newton_pair w \<noteq> 0 \<or> j < atom_nlocal w
         then sa\<lparr>atom_f := add2 (add2 (add2 (atom_f sa) j 0 (- fx)) j 1 (- fy)) j 2 (- fz),
                 atom_torque := add2 (add2 (add2 (atom_torque sa) j 0 (- (radj g * tor1)))
                                        j 1 (- (radj g * tor2))) j 2 (- (radj g * tor3))\<rparr>
         else sa)"

text \<open>Lines 257 to 409, entered when \<open>_ignore != -1\<close>. The virial tally
  (\<open>ev_tally_xyz\<close>) belongs to the base class and is left out.\<close>

definition force_eval :: "config \<Rightarrow> world \<Rightarrow> int \<Rightarrow> int \<Rightarrow> int \<Rightarrow> pair \<Rightarrow> state \<Rightarrow> error + state" where
  "force_eval cfg w i j jj g st =
     bind_err (kinematics cfg w i j g st) (\<lambda>k.
       case shear_update cfg w i jj g k st of (s1, shrmag, fsv) \<Rightarrow>
         bind_err (rescale cfg i jj g k shrmag fsv s1) (\<lambda>(s2, fsv').
           Inr (accumulate w i j g k fsv' s2)))"

text \<open>Lines 177 to 255: everything before the force evaluation. The bond tables are
  read and written at \<open>[ID1-1][ID2-1]\<close> and \<open>[ID2-1][ID1-1]\<close> in every pass,
  so a tag outside the tables is detected first.\<close>

definition pre_force :: "config \<Rightarrow> world \<Rightarrow> int \<Rightarrow> int \<Rightarrow> int \<Rightarrow> state \<Rightarrow> error + state \<times> int" where
  "pre_force cfg w i jj j st =
     (let g = pair_geom w i j in
      if \<not> in_table st (ID1 g - 1) (ID2 g - 1) then Inl OutOfBounds
      else bind_err (create_bonds cfg w i jj g st) (\<lambda>si.
             Inr (tensile_check i jj g (unset_nontouching i jj g si))))"

text \<open>One pass of the inner loop, for the entry \<open>jlist[jj]\<close> of atom \<open>i\<close>.\<close>

definition pair_step :: "config \<Rightarrow> world \<Rightarrow> int \<Rightarrow> int \<Rightarrow> int \<Rightarrow> state \<Rightarrow> error + state" where
  "pair_step cfg w i jj jraw st =
     (let j = jraw AND NEIGHMASK w in
      bind_err (pre_force cfg w i jj j st) (\<lambda>(s1, ignore).
        if ignore \<noteq> - 1 then force_eval cfg w i j jj (pair_geom w i j) s1 else Inr s1))"

subsection \<open>The loops of \<open>PairCFM::compute\<close>\<close>

text \<open>The inner loop \<open>for (jj = 0; jj < jnum; jj++)\<close> over \<open>jlist\<close>; the first
  argument is the slot of the head of the remaining list.\<close>

fun jloop :: "config \<Rightarrow> world \<Rightarrow> int \<Rightarrow> int \<Rightarrow> int list \<Rightarrow> state \<Rightarrow> error + state" where
  "jloop cfg w i jj [] st = Inr st"
| "jloop cfg w i jj (jraw # js) st =
     bind_err (pair_step cfg w i jj jraw st) (jloop cfg w i (jj + 1) js)"

text \<open>The outer loop \<open>for (ii = 0; ii < inum; ii++)\<close> over \<open>ilist\<close>.\<close>

fun iloop :: "config \<Rightarrow> world \<Rightarrow> int list \<Rightarrow> state \<Rightarrow> error + state" where
  "iloop cfg w [] st = Inr st"
| "iloop cfg w (i # is) st =
     bind_err (jloop cfg w i 0 (list_firstneigh w i) st) (iloop cfg w is)"

text \<open>Lines 144 to 160: on step 0 the three tables are created with \<open>inum\<close> rows
  and columns and filled with \<open>false\<close> and \<open>0.0\<close>.\<close>

definition create_tables :: "world \<Rightarrow> state \<Rightarrow> state" where
  "create_tables w st =
     (if update_ntimestep w = 0
      then st\<lparr>tdim := int (length (list_ilist w)),
              is_cohesive := (\<lambda>p q. False),
              m_Dinitial := (\<lambda>p q. 0),
              m_Dtensile := (\<lambda>p q. 0)\<rparr>
      else st)"

text \<open>\<open>PairCFM::compute\<close> from line 125 on. The refresh of \<open>mass_rigid\<close> from the
  rigid-body fix and the virial computation use other classes and are not modelled;
  \<open>mass_rigid\<close> is read as it is given.\<close>

definition compute :: "config \<Rightarrow> world \<Rightarrow> state \<Rightarrow> error + state" where
  "compute cfg w st = iloop cfg w (list_ilist w) (create_tables w st)"

text \<open>Later steps: any number of calls of \<open>compute\<close> with \<open>ntimestep \<ge> 1\<close>,
  between which the integrator, the neighbour list and the history fix may change
  everything except the bond tables, which only \<open>compute\<close> writes.\<close>

inductive later :: "config \<Rightarrow> state \<Rightarrow> state \<Rightarrow> bool" for cfg :: config where
  later_refl: "later cfg st st"
| later_compute:
    "later cfg st s1 \<Longrightarrow> 1 \<le> update_ntimestep w \<Longrightarrow> compute cfg w s1 = Inr s2
       \<Longrightarrow> later cfg st s2"
| later_other:
    "later cfg st s1 \<Longrightarrow> is_cohesive s2 = is_cohesive s1 \<Longrightarrow> tdim s2 = tdim s1
       \<Longrightarrow> m_Dinitial s2 = m_Dinitial s1 \<Longrightarrow> m_Dtensile s2 = m_Dtensile s1
       \<Longrightarrow> later cfg st s2"

subsection \<open>Predicates on the bond tables\<close>

text \<open>The bond flag is stored symmetrically.\<close>

definition sym_bonds :: "state \<Rightarrow> bool" where
  "sym_bonds st = (\<forall>a b. is_cohesive st a b = is_cohesive st b a)"

text \<open>Between \<open>st\<close> and \<open>st'\<close> the flags are unchanged or the entry of the pair
  \<open>g\<close> has been cleared in both directions.\<close>

definition bonds_step :: "pair \<Rightarrow> state \<Rightarrow> state \<Rightarrow> bool" where
  "bonds_step g st st' =
     (is_cohesive st' = is_cohesive st \<or>
      is_cohesive st' = set_both (is_cohesive st) (ID1 g - 1) (ID2 g - 1) False)"

text \<open>No flag is set in \<open>st'\<close> that was clear in \<open>st\<close>.\<close>

definition no_new_bonds :: "state \<Rightarrow> state \<Rightarrow> bool" where
  "no_new_bonds st st' = (\<forall>a b. is_cohesive st' a b \<longrightarrow> is_cohesive st a b)"

subsection \<open>A two-atom configuration for evaluating the definitions\<close>

text \<open>Atoms 0 and 1 have tags 1 and 2, radius 1 and mass 1; atom 0 is at the origin and
  atom 1 at \<open>(d, 0, 0)\<close>, both at rest. Both are in \<open>ilist\<close>; atom 0 has the
  single neighbour 1 and atom 1 has none.\<close>

definition ex_cfg :: "real \<Rightarrow> config" where
  "ex_cfg mu = \<lparr>kn = 1, kt = 1, gamman = 0, gammat = 0, xmu = mu, dampflag = 0,
                 m_t = 1, m_c = 0, m_enlargeFactor = 6 / 5\<rparr>"

definition ex_world :: "int \<Rightarrow> real \<Rightarrow> world" where
  "ex_world ts d =
     \<lparr>update_ntimestep = ts,
      atom_x = (\<lambda>a c. if a = 1 \<and> c = 0 then d else 0),
      atom_v = (\<lambda>a c. 0),
      atom_omega = (\<lambda>a c. 0),
      atom_radius = (\<lambda>a. 1),
      atom_rmass = (\<lambda>a. 1),
      atom_mask = (\<lambda>a. 1),
      atom_tag = (\<lambda>a. a + 1),
      atom_nlocal = 2,
      force_newton_pair = 1,
      list_ilist = [0, 1],
      list_firstneigh = (\<lambda>a. if a = 0 then [1] else []),
      NEIGHMASK = 1073741823,
      fix_rigid = False,
      mass_rigid = (\<lambda>a. 0),
      freeze_group_bit = 0,
      dt = 1\<rparr>"

text \<open>The tables have dimension 2. With \<open>bonded\<close> the pair of tags 1 and 2 is bonded
  with initial gap 0 and tensile failure distance 1/20. The shear displacement stored
  for slot 0 of atom 0 is \<open>(hx, hy, 0)\<close>.\<close>

definition ex_state :: "bool \<Rightarrow> real \<Rightarrow> real \<Rightarrow> state" where
  "ex_state bonded hx hy =
     \<lparr>atom_f = (\<lambda>a c. 0),
      atom_torque = (\<lambda>a c. 0),
      firstflag = (\<lambda>a jj. 0),
      firstvalue = (\<lambda>a q. if a = 0 \<and> q = 0 then hx else if a = 0 \<and> q = 1 then hy else 0),
      tdim = 2,
      is_cohesive = (\<lambda>p q. bonded \<and> (p = 0 \<and> q = 1 \<or> p = 1 \<and> q = 0)),
      m_Dinitial = (\<lambda>p q. 0),
      m_Dtensile = (\<lambda>p q. 1 / 20),
      m_D = 0\<rparr>"

text \<open>The same with a third atom (tag 3) at \<open>(0, 3, 0)\<close>: atom 0 has the neighbours
  1 and 2, in the slots 0 and 1, and the tables have dimension 3.\<close>

definition ex_world3 :: "int \<Rightarrow> real \<Rightarrow> world" where
  "ex_world3 ts d =
     (ex_world ts d)\<lparr>atom_x := (\<lambda>a c. if a = 1 \<and> c = 0 then d
                                     else if a = 2 \<and> c = 1 then 3 else 0),
                     atom_nlocal := 3,
                     list_ilist := [0, 1, 2],
                     list_firstneigh := (\<lambda>a. if a = 0 then [1, 2] else [])\<rparr>"

definition ex_state3 :: "bool \<Rightarrow> real \<Rightarrow> real \<Rightarrow> state" where
  "ex_state3 bonded hx hy = (ex_state bonded hx hy)\<lparr>tdim := 3\<rparr>"

section \<open>Properties\<close>

subsection \<open>Array updates, results and state fields\<close>


lemma set2_apply: "set2 a i j v p q = (if p = i \<and> q = j then v else a p q)"
  unfolding set2_def by auto

lemma set_both_apply:
  "set_both a p q v x y = (if (x = p \<and> y = q) \<or> (x = q \<and> y = p) then v else a x y)"
  unfolding set_both_def set2_def by auto

lemma add2_apply: "add2 a i j d p q = (if p = i \<and> q = j then a i j + d else a p q)"
  unfolding add2_def by (simp add: set2_apply)

lemma bind_err_Inr_iff: "bind_err m k = Inr y \<longleftrightarrow> (\<exists>a. m = Inr a \<and> k a = Inr y)"
  unfolding bind_err_def by (cases m) auto

lemma bind_err_Inl_iff: "bind_err m k = Inl e \<longleftrightarrow> m = Inl e \<or> (\<exists>a. m = Inr a \<and> k a = Inl e)"
  unfolding bind_err_def by (cases m) auto

lemma bind_err_simps [simp]: "bind_err (Inl e) k = Inl e" "bind_err (Inr a) k = k a"
  unfolding bind_err_def by simp_all

lemma touch_set_fields [simp]:
  "atom_f (touch_set i jj v st) = atom_f st"
  "atom_torque (touch_set i jj v st) = atom_torque st"
  "firstvalue (touch_set i jj v st) = firstvalue st"
  "firstflag (touch_set i jj v st) = set2 (firstflag st) i jj v"
  "tdim (touch_set i jj v st) = tdim st"
  "is_cohesive (touch_set i jj v st) = is_cohesive st"
  "m_Dinitial (touch_set i jj v st) = m_Dinitial st"
  "m_Dtensile (touch_set i jj v st) = m_Dtensile st"
  "m_D (touch_set i jj v st) = m_D st"
  unfolding touch_set_def by simp_all

lemma history_set_fields [simp]:
  "atom_f (history_set i jj k v st) = atom_f st"
  "atom_torque (history_set i jj k v st) = atom_torque st"
  "firstvalue (history_set i jj k v st) = set2 (firstvalue st) i (3 * jj + k) v"
  "firstflag (history_set i jj k v st) = firstflag st"
  "tdim (history_set i jj k v st) = tdim st"
  "is_cohesive (history_set i jj k v st) = is_cohesive st"
  "m_Dinitial (history_set i jj k v st) = m_Dinitial st"
  "m_Dtensile (history_set i jj k v st) = m_Dtensile st"
  "m_D (history_set i jj k v st) = m_D st"
  unfolding history_set_def by simp_all

lemma clear_bond_fields [simp]:
  "atom_f (clear_bond a b st) = atom_f st"
  "atom_torque (clear_bond a b st) = atom_torque st"
  "firstvalue (clear_bond a b st) = firstvalue st"
  "firstflag (clear_bond a b st) = firstflag st"
  "tdim (clear_bond a b st) = tdim st"
  "is_cohesive (clear_bond a b st) = set_both (is_cohesive st) (a - 1) (b - 1) False"
  "m_Dinitial (clear_bond a b st) = m_Dinitial st"
  "m_Dtensile (clear_bond a b st) = m_Dtensile st"
  "m_D (clear_bond a b st) = m_D st"
  unfolding clear_bond_def by simp_all

lemma unset_contact_fields [simp]:
  "atom_f (unset_contact i jj st) = atom_f st"
  "atom_torque (unset_contact i jj st) = atom_torque st"
  "firstflag (unset_contact i jj st) = set2 (firstflag st) i jj 0"
  "tdim (unset_contact i jj st) = tdim st"
  "is_cohesive (unset_contact i jj st) = is_cohesive st"
  "m_Dinitial (unset_contact i jj st) = m_Dinitial st"
  "m_Dtensile (unset_contact i jj st) = m_Dtensile st"
  "m_D (unset_contact i jj st) = m_D st"
  unfolding unset_contact_def by simp_all

lemma unset_contact_firstvalue:
  "firstvalue (unset_contact i jj st) p q =
     (if p = i \<and> (q = 3 * jj \<or> q = 3 * jj + 1 \<or> q = 3 * jj + 2) then 0 else firstvalue st p q)"
  unfolding unset_contact_def by (auto simp: set2_apply)

lemma history_history_set:
  "history (history_set i jj k v st) i' jj' k' =
     (if i' = i \<and> 3 * jj' + k' = 3 * jj + k then v else history st i' jj' k')"
  unfolding history_def by (simp add: set2_apply)

lemma history_other [simp]:
  "history (touch_set i jj v st) = history st"
  "history (clear_bond a b st) = history st"
  by (simp_all add: history_def fun_eq_iff)


subsection \<open>The bond flags through the stages\<close>

lemma set_both_idem: "set_both (set_both a p q v) p q v = set_both a p q v"
  by (simp add: fun_eq_iff set_both_apply)

lemma bonds_step_refl: "is_cohesive st' = is_cohesive st \<Longrightarrow> bonds_step g st st'"
  by (simp add: bonds_step_def)

lemma bonds_step_trans: "bonds_step g st s1 \<Longrightarrow> bonds_step g s1 s2 \<Longrightarrow> bonds_step g st s2"
  unfolding bonds_step_def by (auto simp: set_both_idem)

lemma unset_nontouching_bonds:
  "is_cohesive (fst (unset_nontouching i jj g (st, ign))) = is_cohesive st"
  by (simp add: unset_nontouching_def)

lemma tensile_check_bonds: "bonds_step g st (fst (tensile_check i jj g (st, ign)))"
  by (simp add: tensile_check_def bonds_step_def Let_def split: prod.splits)

lemma shear_update_frame:
  assumes "shear_update cfg w i jj g k st = (st', rest)"
  shows "is_cohesive st' = is_cohesive st" "atom_f st' = atom_f st"
    "atom_torque st' = atom_torque st" "tdim st' = tdim st"
    "m_Dinitial st' = m_Dinitial st" "m_Dtensile st' = m_Dtensile st" "m_D st' = m_D st"
  using assms by (auto simp: shear_update_def Let_def)

lemma rescale_bonds:
  assumes "rescale cfg i jj g k shrmag fsv st = Inr (st', fsv')"
  shows "bonds_step g st st'"
  using assms
  by (auto simp: rescale_def bonds_step_def Let_def bind_err_Inr_iff
      split: prod.splits if_splits)

lemma rescale_frame:
  assumes "rescale cfg i jj g k shrmag fsv st = Inr (st', fsv')"
  shows "atom_f st' = atom_f st" "atom_torque st' = atom_torque st" "tdim st' = tdim st"
  using assms
  by (auto simp: rescale_def Let_def bind_err_Inr_iff split: prod.splits if_splits)

lemma accumulate_frame:
  "is_cohesive (accumulate w i j g k fsv st) = is_cohesive st"
  "tdim (accumulate w i j g k fsv st) = tdim st"
  "firstvalue (accumulate w i j g k fsv st) = firstvalue st"
  "firstflag (accumulate w i j g k fsv st) = firstflag st"
  by (simp_all add: accumulate_def Let_def split: prod.splits)

lemma force_eval_Inr:
  assumes "force_eval cfg w i j jj g st = Inr st'"
  shows "\<exists>k s1 shrmag fsv s2 fsv'.
           kinematics cfg w i j g st = Inr k \<and>
           shear_update cfg w i jj g k st = (s1, shrmag, fsv) \<and>
           rescale cfg i jj g k shrmag fsv s1 = Inr (s2, fsv') \<and>
           st' = accumulate w i j g k fsv' s2"
proof (cases "kinematics cfg w i j g st")
  case (Inl e)
  then show ?thesis using assms by (simp add: force_eval_def)
next
  case (Inr k)
  obtain s1 shrmag fsv where su: "shear_update cfg w i jj g k st = (s1, shrmag, fsv)"
    by (cases "shear_update cfg w i jj g k st") auto
  show ?thesis
  proof (cases "rescale cfg i jj g k shrmag fsv s1")
    case (Inl e)
    then show ?thesis using assms Inr su by (simp add: force_eval_def)
  next
    case rs: (Inr res)
    obtain s2 fsv' where res: "res = (s2, fsv')" by (cases res) auto
    have "st' = accumulate w i j g k fsv' s2"
      using assms Inr su rs res by (simp add: force_eval_def)
    then show ?thesis using Inr su rs res by blast
  qed
qed

lemma force_eval_bonds:
  assumes "force_eval cfg w i j jj g st = Inr st'"
  shows "bonds_step g st st'"
proof -
  from force_eval_Inr[OF assms] obtain k s1 shrmag fsv s2 fsv' where
    su: "shear_update cfg w i jj g k st = (s1, shrmag, fsv)" and
    rs: "rescale cfg i jj g k shrmag fsv s1 = Inr (s2, fsv')" and
    st': "st' = accumulate w i j g k fsv' s2"
    by blast
  have "bonds_step g st s1"
    using shear_update_frame(1)[OF su] by (rule bonds_step_refl)
  moreover have "bonds_step g s1 s2" using rs by (rule rescale_bonds)
  moreover have "bonds_step g s2 st'"
    by (rule bonds_step_refl) (simp add: st' accumulate_frame)
  ultimately show ?thesis by (blast intro: bonds_step_trans)
qed

lemma create_bonds_later:
  assumes "1 \<le> update_ntimestep w"
  shows "create_bonds cfg w i jj g st = Inr (st, 1)"
  using assms by (simp add: create_bonds_def)

lemma pre_force_Inr:
  assumes "pre_force cfg w i jj j st = Inr (st', ign)"
  obtains s1 ign1 where
    "in_table st (ID1 (pair_geom w i j) - 1) (ID2 (pair_geom w i j) - 1)"
    "create_bonds cfg w i jj (pair_geom w i j) st = Inr (s1, ign1)"
    "(st', ign) = tensile_check i jj (pair_geom w i j)
                    (unset_nontouching i jj (pair_geom w i j) (s1, ign1))"
  using assms
  by (auto simp: pre_force_def Let_def bind_err_Inr_iff split: if_splits)

lemma post_bonds:
  "bonds_step g s1 (fst (tensile_check i jj g (unset_nontouching i jj g (s1, ign1))))"
proof -
  obtain s2 ign2 where u: "unset_nontouching i jj g (s1, ign1) = (s2, ign2)"
    by (cases "unset_nontouching i jj g (s1, ign1)")
  have "is_cohesive s2 = is_cohesive s1"
    using unset_nontouching_bonds[of i jj g s1 ign1] by (simp add: u)
  then have "bonds_step g s1 s2" by (rule bonds_step_refl)
  moreover have "bonds_step g s2 (fst (tensile_check i jj g (s2, ign2)))"
    by (rule tensile_check_bonds)
  ultimately show ?thesis by (simp add: u) (blast intro: bonds_step_trans)
qed

lemma pair_step_Inr:
  assumes "pair_step cfg w i jj jraw st = Inr st'"
  shows "\<exists>s3 ign.
    pre_force cfg w i jj (jraw AND NEIGHMASK w) st = Inr (s3, ign) \<and>
    (if ign \<noteq> - 1
     then force_eval cfg w i (jraw AND NEIGHMASK w) jj (pair_geom w i (jraw AND NEIGHMASK w)) s3
            = Inr st'
     else st' = s3)"
proof (cases "pre_force cfg w i jj (jraw AND NEIGHMASK w) st")
  case (Inl e)
  then show ?thesis using assms by (simp add: pair_step_def Let_def)
next
  case (Inr res)
  obtain s3 ign where res: "res = (s3, ign)" by (cases res) auto
  show ?thesis using assms Inr res by (auto simp: pair_step_def Let_def split: if_splits)
qed

lemma pair_step_later_bonds:
  assumes "1 \<le> update_ntimestep w" and "pair_step cfg w i jj jraw st = Inr st'"
  shows "bonds_step (pair_geom w i (jraw AND NEIGHMASK w)) st st'"
proof -
  let ?j = "jraw AND NEIGHMASK w"
  let ?g = "pair_geom w i ?j"
  from pair_step_Inr[OF assms(2)] obtain s3 ign where
    pf: "pre_force cfg w i jj ?j st = Inr (s3, ign)" and
    fe: "ign \<noteq> - 1 \<Longrightarrow> force_eval cfg w i ?j jj ?g s3 = Inr st'" and
    sk: "ign = - 1 \<Longrightarrow> st' = s3"
    by (metis (full_types))
  from pf obtain s1 ign1 where
    cb: "create_bonds cfg w i jj ?g st = Inr (s1, ign1)" and
    post: "(s3, ign) = tensile_check i jj ?g (unset_nontouching i jj ?g (s1, ign1))"
    by (rule pre_force_Inr)
  have "s1 = st" using cb create_bonds_later[OF assms(1)] by simp
  then have a: "bonds_step ?g st s3"
    using post_bonds[of ?g s1 i jj ign1] post[symmetric] by simp
  show ?thesis
  proof (cases "ign = - 1")
    case True
    then show ?thesis using a sk by simp
  next
    case False
    then have "bonds_step ?g s3 st'" using fe force_eval_bonds by blast
    then show ?thesis using a by (blast intro: bonds_step_trans)
  qed
qed

lemma bonds_step_no_new: "bonds_step g st st' \<Longrightarrow> no_new_bonds st st'"
  unfolding bonds_step_def no_new_bonds_def by (auto simp: set_both_apply split: if_splits)

lemma no_new_bonds_trans: "no_new_bonds st s1 \<Longrightarrow> no_new_bonds s1 s2 \<Longrightarrow> no_new_bonds st s2"
  unfolding no_new_bonds_def by blast

lemma jloop_later_bonds:
  assumes "1 \<le> update_ntimestep w"
  shows "jloop cfg w i jj js st = Inr st' \<Longrightarrow> no_new_bonds st st'"
proof (induction js arbitrary: jj st)
  case Nil
  then show ?case by (simp add: no_new_bonds_def)
next
  case (Cons jraw js)
  from Cons.prems obtain s1 where
    ps: "pair_step cfg w i jj jraw st = Inr s1" and
    rest: "jloop cfg w i (jj + 1) js s1 = Inr st'"
    by (auto simp: bind_err_Inr_iff)
  have "no_new_bonds st s1"
    using pair_step_later_bonds[OF assms ps] by (rule bonds_step_no_new)
  moreover have "no_new_bonds s1 st'" using rest by (rule Cons.IH)
  ultimately show ?case by (rule no_new_bonds_trans)
qed

lemma iloop_later_bonds:
  assumes "1 \<le> update_ntimestep w"
  shows "iloop cfg w is st = Inr st' \<Longrightarrow> no_new_bonds st st'"
proof (induction "is" arbitrary: st)
  case Nil
  then show ?case by (simp add: no_new_bonds_def)
next
  case (Cons i "is")
  from Cons.prems obtain s1 where
    jl: "jloop cfg w i 0 (list_firstneigh w i) st = Inr s1" and
    rest: "iloop cfg w is s1 = Inr st'"
    by (auto simp: bind_err_Inr_iff)
  have "no_new_bonds st s1" using jl by (rule jloop_later_bonds[OF assms])
  moreover have "no_new_bonds s1 st'" using rest by (rule Cons.IH)
  ultimately show ?case by (rule no_new_bonds_trans)
qed

lemma compute_later_bonds:
  assumes "1 \<le> update_ntimestep w" and "compute cfg w st = Inr st'"
  shows "no_new_bonds st st'"
proof -
  have "create_tables w st = st" using assms(1) by (simp add: create_tables_def)
  then show ?thesis using assms iloop_later_bonds by (simp add: compute_def)
qed

lemma later_no_new_bonds: "later cfg st st' \<Longrightarrow> no_new_bonds st st'"
proof (induction rule: later.induct)
  case (later_refl st)
  then show ?case by (simp add: no_new_bonds_def)
next
  case (later_compute st s1 w s2)
  then show ?case using compute_later_bonds no_new_bonds_trans by blast
next
  case (later_other st s1 s2)
  then show ?case by (simp add: no_new_bonds_def)
qed

subsection \<open>Symmetry of the bond flags\<close>

lemma sym_set_both:
  assumes "\<forall>a b. A a b = A b a"
  shows "set_both A p q v a b = set_both A p q v b a"
  using assms by (auto simp: set_both_apply)

lemma bonds_step_sym: "bonds_step g st st' \<Longrightarrow> sym_bonds st \<Longrightarrow> sym_bonds st'"
  unfolding bonds_step_def sym_bonds_def by (auto simp: sym_set_both)

lemma create_bonds_sym:
  assumes "create_bonds cfg w i jj g st = Inr (s1, ign)" and "sym_bonds st"
  shows "sym_bonds s1"
  using assms unfolding create_bonds_def sym_bonds_def
  by (auto simp: sym_set_both split: if_splits)

lemma pre_force_sym:
  assumes "pre_force cfg w i jj j st = Inr (s3, ign)" and "sym_bonds st"
  shows "sym_bonds s3"
proof -
  let ?g = "pair_geom w i j"
  from assms(1) obtain s1 ign1 where
    cb: "create_bonds cfg w i jj ?g st = Inr (s1, ign1)" and
    post: "(s3, ign) = tensile_check i jj ?g (unset_nontouching i jj ?g (s1, ign1))"
    by (rule pre_force_Inr)
  have "sym_bonds s1" using cb assms(2) by (rule create_bonds_sym)
  moreover have "bonds_step ?g s1 s3"
    using post_bonds[of ?g s1 i jj ign1] post[symmetric] by simp
  ultimately show ?thesis using bonds_step_sym by blast
qed

lemma pair_step_sym:
  assumes "pair_step cfg w i jj jraw st = Inr st'" and "sym_bonds st"
  shows "sym_bonds st'"
proof -
  let ?j = "jraw AND NEIGHMASK w"
  let ?g = "pair_geom w i ?j"
  from pair_step_Inr[OF assms(1)] obtain s3 ign where
    pf: "pre_force cfg w i jj ?j st = Inr (s3, ign)" and
    fe: "ign \<noteq> - 1 \<Longrightarrow> force_eval cfg w i ?j jj ?g s3 = Inr st'" and
    sk: "ign = - 1 \<Longrightarrow> st' = s3"
    by (metis (full_types))
  have a: "sym_bonds s3" using pf assms(2) by (rule pre_force_sym)
  show ?thesis
  proof (cases "ign = - 1")
    case True
    then show ?thesis using a sk by simp
  next
    case False
    then have "bonds_step ?g s3 st'" using fe force_eval_bonds by blast
    then show ?thesis using a by (rule bonds_step_sym)
  qed
qed

lemma jloop_sym:
  "jloop cfg w i jj js st = Inr st' \<Longrightarrow> sym_bonds st \<Longrightarrow> sym_bonds st'"
proof (induction js arbitrary: jj st)
  case Nil
  then show ?case by simp
next
  case (Cons jraw js)
  from Cons.prems(1) obtain s1 where
    ps: "pair_step cfg w i jj jraw st = Inr s1" and
    rest: "jloop cfg w i (jj + 1) js s1 = Inr st'"
    by (auto simp: bind_err_Inr_iff)
  have "sym_bonds s1" using ps Cons.prems(2) by (rule pair_step_sym)
  then show ?case using rest Cons.IH by blast
qed

lemma iloop_sym:
  "iloop cfg w is st = Inr st' \<Longrightarrow> sym_bonds st \<Longrightarrow> sym_bonds st'"
proof (induction "is" arbitrary: st)
  case Nil
  then show ?case by simp
next
  case (Cons i "is")
  from Cons.prems(1) obtain s1 where
    jl: "jloop cfg w i 0 (list_firstneigh w i) st = Inr s1" and
    rest: "iloop cfg w is s1 = Inr st'"
    by (auto simp: bind_err_Inr_iff)
  have "sym_bonds s1" using jl Cons.prems(2) by (rule jloop_sym)
  then show ?case using rest Cons.IH by blast
qed

lemma create_tables_sym:
  "update_ntimestep w = 0 \<or> sym_bonds st \<Longrightarrow> sym_bonds (create_tables w st)"
  by (auto simp: create_tables_def sym_bonds_def)

lemma compute_sym:
  assumes "compute cfg w st = Inr st'" and "update_ntimestep w = 0 \<or> sym_bonds st"
  shows "sym_bonds st'"
  using assms iloop_sym create_tables_sym unfolding compute_def by blast


subsection \<open>The two-atom configuration\<close>

lemma ex_geom:
  "pair_geom (ex_world ts d) 0 1 =
     \<lparr>ID1 = 1, ID2 = 2, delx = - d, dely = 0, delz = 0, rsq = d * d,
      radi = 1, radj = 1, radsum = 2, r = \<bar>d\<bar>, radmin = 1\<rparr>"
  by (simp add: pair_geom_def ex_world_def Let_def)

lemma ex_world_simps:
  "update_ntimestep (ex_world ts d) = ts"
  "atom_v (ex_world ts d) a c = 0"
  "atom_omega (ex_world ts d) a c = 0"
  "atom_radius (ex_world ts d) a = 1"
  "atom_rmass (ex_world ts d) a = 1"
  "atom_mask (ex_world ts d) a = 1"
  "atom_tag (ex_world ts d) a = a + 1"
  "atom_nlocal (ex_world ts d) = 2"
  "force_newton_pair (ex_world ts d) = 1"
  "list_ilist (ex_world ts d) = [0, 1]"
  "list_firstneigh (ex_world ts d) 0 = [1]"
  "list_firstneigh (ex_world ts d) 1 = []"
  "NEIGHMASK (ex_world ts d) = 1073741823"
  "fix_rigid (ex_world ts d) = False"
  "freeze_group_bit (ex_world ts d) = 0"
  "dt (ex_world ts d) = 1"
  by (simp_all add: ex_world_def)

lemma ex_cfg_simps:
  "kn (ex_cfg mu) = 1" "kt (ex_cfg mu) = 1" "gamman (ex_cfg mu) = 0" "gammat (ex_cfg mu) = 0"
  "xmu (ex_cfg mu) = mu" "m_t (ex_cfg mu) = 1" "m_c (ex_cfg mu) = 0"
  "m_enlargeFactor (ex_cfg mu) = 6 / 5"
  by (simp_all add: ex_cfg_def)

lemma ex_state_simps:
  "atom_f (ex_state b hx hy) a c = 0"
  "atom_torque (ex_state b hx hy) a c = 0"
  "firstflag (ex_state b hx hy) a jj = 0"
  "firstvalue (ex_state b hx hy) a q =
     (if a = 0 \<and> q = 0 then hx else if a = 0 \<and> q = 1 then hy else 0)"
  "tdim (ex_state b hx hy) = 2"
  "is_cohesive (ex_state b hx hy) p q = (b \<and> (p = 0 \<and> q = 1 \<or> p = 1 \<and> q = 0))"
  "m_Dinitial (ex_state b hx hy) p q = 0"
  "m_Dtensile (ex_state b hx hy) p q = 1 / 20"
  by (simp_all add: ex_state_def)

lemmas ex_simps = ex_world_simps ex_cfg_simps ex_state_simps ex_geom


subsection \<open>Tensile failure\<close>

lemma create_bonds_firstvalue:
  "create_bonds cfg w i jj g st = Inr (s1, ign1) \<Longrightarrow> firstvalue s1 = firstvalue st"
  by (auto simp: create_bonds_def split: if_splits)

lemma create_bonds_forces:
  "create_bonds cfg w i jj g st = Inr (s1, ign1) \<Longrightarrow>
     atom_f s1 = atom_f st \<and> atom_torque s1 = atom_torque st"
  by (auto simp: create_bonds_def split: if_splits)

lemma tensile_failure_pre_force:
  assumes "in_table st (ID1 g - 1) (ID2 g - 1)"
    and "g = pair_geom w i j"
    and "create_bonds cfg w i jj g st = Inr (s1, ign1)"
    and "is_cohesive s1 (ID1 g - 1) (ID2 g - 1)"
    and "(radsum g - r g) - m_Dinitial s1 (ID1 g - 1) (ID2 g - 1) < 0"
    and "\<bar>(radsum g - r g) - m_Dinitial s1 (ID1 g - 1) (ID2 g - 1)\<bar>
           \<ge> m_Dtensile s1 (ID1 g - 1) (ID2 g - 1)"
  shows "pre_force cfg w i jj j st =
           Inr (clear_bond (ID1 g) (ID2 g)
                  (history_set i jj 5 (history s1 i jj 5 + 1)
                     (unset_contact i jj
                        (s1\<lparr>m_D := (radsum g - r g) - m_Dinitial s1 (ID1 g - 1) (ID2 g - 1)\<rparr>))),
                - 1)"
  using assms
  by (simp add: pre_force_def Let_def unset_nontouching_def tensile_check_def history_def
      unset_contact_firstvalue)


subsection \<open>Evaluations on the two-atom configuration\<close>

lemma ex_tensile_step:
  "pair_step (ex_cfg 1) (ex_world 1 3) 0 0 1 (ex_state True 0 0) =
     Inr (clear_bond 1 2 (history_set 0 0 5 1
            (unset_contact 0 0 ((ex_state True 0 0)\<lparr>m_D := - 1\<rparr>))))"
  apply (simp add: pair_step_def pre_force_def in_table_def create_bonds_def ex_simps Let_def)
  apply (simp add: unset_nontouching_def tensile_check_def ex_simps Let_def)
  apply (simp add: history_def unset_contact_firstvalue ex_simps)
  done

lemma ex_later_compute:
  "\<exists>s. compute (ex_cfg 1) (ex_world 2 2)
     (clear_bond 1 2 (history_set 0 0 5 1
            (unset_contact 0 0 ((ex_state True 0 0)\<lparr>m_D := - 1\<rparr>)))) = Inr s"
  apply (simp add: compute_def create_tables_def ex_simps)
  apply (simp add: pair_step_def pre_force_def in_table_def create_bonds_def ex_simps Let_def)
  apply (simp add: unset_nontouching_def tensile_check_def ex_simps Let_def set_both_apply)
  apply (simp add: force_eval_def kinematics_def pair_mi_def ex_simps Let_def)
  apply (simp add: shear_update_def history_def ex_simps Let_def set2_apply unset_contact_firstvalue)
  apply (simp add: rescale_def fn_limit_def ex_simps Let_def set_both_apply)
  done

lemma ex_formation_compute:
  "\<exists>s. compute (ex_cfg 1) (ex_world 0 2) (ex_state True 0 0) = Inr s"
  apply (simp add: compute_def create_tables_def ex_simps)
  apply (simp add: pair_step_def pre_force_def in_table_def create_bonds_def ex_simps Let_def)
  apply (simp add: unset_nontouching_def tensile_check_def ex_simps Let_def set_both_apply)
  apply (simp add: force_eval_def kinematics_def pair_mi_def ex_simps Let_def)
  apply (simp add: shear_update_def history_def ex_simps Let_def set2_apply)
  apply ((simp add: rescale_def fn_limit_def ex_simps Let_def set_both_apply)?)
  done

lemma ex_formation_bonds:
  "\<exists>s ign. create_bonds (ex_cfg 1) (ex_world 0 2) 0 0 (pair_geom (ex_world 0 2) 0 1)
             (ex_state True 0 0) = Inr (s, ign)"
  by (simp add: create_bonds_def ex_simps)

lemma ex_sym: "sym_bonds (ex_state b hx hy)"
  by (auto simp: sym_bonds_def ex_simps)


subsection \<open>Forces and torques\<close>

lemma create_bonds_frame:
  assumes "create_bonds cfg w i jj g st = Inr (s1, ign1)"
  shows "atom_f s1 = atom_f st" "atom_torque s1 = atom_torque st" "firstvalue s1 = firstvalue st"
  using assms by (auto simp: create_bonds_def split: if_splits)

lemma unset_nontouching_frame:
  assumes "unset_nontouching i jj g (st, ign) = (s1, ign1)"
  shows "atom_f s1 = atom_f st" "atom_torque s1 = atom_torque st"
  using assms by (auto simp: unset_nontouching_def split: if_splits)

lemma tensile_check_frame:
  assumes "tensile_check i jj g (st, ign) = (s1, ign1)"
  shows "atom_f s1 = atom_f st" "atom_torque s1 = atom_torque st"
  using assms by (auto simp: tensile_check_def Let_def split: if_splits prod.splits)

lemma pre_force_frame:
  assumes "pre_force cfg w i jj j st = Inr (s3, ign)"
  shows "atom_f s3 = atom_f st" "atom_torque s3 = atom_torque st"
proof -
  let ?g = "pair_geom w i j"
  from assms obtain s1 ign1 where
    cb: "create_bonds cfg w i jj ?g st = Inr (s1, ign1)" and
    post: "(s3, ign) = tensile_check i jj ?g (unset_nontouching i jj ?g (s1, ign1))"
    by (rule pre_force_Inr)
  obtain s2 ign2 where u: "unset_nontouching i jj ?g (s1, ign1) = (s2, ign2)"
    by (cases "unset_nontouching i jj ?g (s1, ign1)")
  have t: "tensile_check i jj ?g (s2, ign2) = (s3, ign)" using post u by simp
  show "atom_f s3 = atom_f st"
    using create_bonds_frame(1)[OF cb] unset_nontouching_frame(1)[OF u]
      tensile_check_frame(1)[OF t] by simp
  show "atom_torque s3 = atom_torque st"
    using create_bonds_frame(2)[OF cb] unset_nontouching_frame(2)[OF u]
      tensile_check_frame(2)[OF t] by simp
qed

lemma accumulate_newton:
  assumes "force_newton_pair w \<noteq> 0 \<or> j < atom_nlocal w"
  shows "atom_f (accumulate w i j g k fsv st) j c - atom_f st j c
           = - (atom_f (accumulate w i j g k fsv st) i c - atom_f st i c)"
proof -
  obtain fs1 fs2 fs3 where fsv: "fsv = (fs1, fs2, fs3)" by (cases fsv) auto
  show ?thesis
    using assms by (simp add: fsv accumulate_def Let_def add2_apply)
qed

lemma force_eval_newton:
  assumes "force_eval cfg w i j jj g st = Inr st'"
    and "force_newton_pair w \<noteq> 0 \<or> j < atom_nlocal w"
  shows "atom_f st' j c - atom_f st j c = - (atom_f st' i c - atom_f st i c)"
proof -
  from force_eval_Inr[OF assms(1)] obtain k s1 shrmag fsv s2 fsv' where
    su: "shear_update cfg w i jj g k st = (s1, shrmag, fsv)" and
    rs: "rescale cfg i jj g k shrmag fsv s1 = Inr (s2, fsv')" and
    st': "st' = accumulate w i j g k fsv' s2"
    by blast
  have "atom_f s2 = atom_f st"
    using shear_update_frame(2)[OF su] rescale_frame(1)[OF rs] by simp
  then show ?thesis
    using accumulate_newton[OF assms(2), of i g k fsv' s2 c] by (simp add: st')
qed


lemma ex_overlap_step:
  "\<exists>s. pair_step (ex_cfg (1 / 2)) (ex_world 1 1) 0 0 1 (ex_state False 0 1) = Inr s \<and>
       atom_f s 0 0 = - 1 \<and> atom_f s 1 0 = 1 \<and> atom_f s 0 1 = - (1 / 2) \<and>
       atom_f s 1 1 = 1 / 2 \<and>
       atom_torque s 0 2 = - (1 / 2) \<and> atom_torque s 1 2 = - (1 / 2) \<and>
       history s 0 0 1 = 1 / 2"
  apply (simp add: pair_step_def pre_force_def in_table_def create_bonds_def ex_simps Let_def)
  apply (simp add: unset_nontouching_def tensile_check_def ex_simps Let_def)
  apply (simp add: force_eval_def kinematics_def pair_mi_def ex_simps Let_def)
  apply (simp add: shear_update_def history_def ex_simps Let_def set2_apply)
  apply (simp add: rescale_def fn_limit_def history_def ex_simps Let_def set2_apply)
  apply (simp add: accumulate_def ex_simps Let_def add2_apply set2_apply)
  done

lemma ex_noscale_step:
  "\<exists>s. pair_step (ex_cfg 2) (ex_world 1 1) 0 0 1 (ex_state False 0 1) = Inr s \<and>
       atom_f s 0 0 = - 1 \<and> atom_f s 0 1 = - 1 \<and> history s 0 0 1 = 1"
  apply (simp add: pair_step_def pre_force_def in_table_def create_bonds_def ex_simps Let_def)
  apply (simp add: unset_nontouching_def tensile_check_def ex_simps Let_def)
  apply (simp add: force_eval_def kinematics_def pair_mi_def ex_simps Let_def)
  apply (simp add: shear_update_def history_def ex_simps Let_def set2_apply)
  apply (simp add: rescale_def fn_limit_def history_def ex_simps Let_def set2_apply)
  apply (simp add: accumulate_def ex_simps Let_def add2_apply set2_apply)
  done


lemma ex_overlap_kin:
  "kinematics (ex_cfg mu) (ex_world 1 1) 0 1 (pair_geom (ex_world 1 1) 0 1) (st\<lparr>m_D := 1\<rparr>) =
     Inr \<lparr>rinv = 1, rsqinv = 1, vnnr = 0, meff = 1 / 2, ccel = 1, vtr1 = 0, vtr2 = 0, vtr3 = 0\<rparr>"
  by (simp add: kinematics_def pair_mi_def ex_simps Let_def)

lemma kinematics_rinv:
  assumes "kinematics cfg w i j g s0 = Inr k"
  shows "r g \<noteq> 0" "rinv k = 1 / r g" "rsqinv k = 1 / rsq g"
  using assms by (auto simp: kinematics_def Let_def split: if_splits)

lemma accumulate_torque_i:
  assumes "i \<noteq> j"
  shows "atom_torque (accumulate w i j g k (fs1, fs2, fs3) st) i c =
           (if c = 0 then atom_torque st i 0 - radi g * (rinv k * (dely g * fs3 - delz g * fs2))
            else if c = 1 then atom_torque st i 1 - radi g * (rinv k * (delz g * fs1 - delx g * fs3))
            else if c = 2 then atom_torque st i 2 - radi g * (rinv k * (delx g * fs2 - dely g * fs1))
            else atom_torque st i c)"
  using assms by (simp add: accumulate_def Let_def add2_apply)

lemma accumulate_torque_j:
  assumes "i \<noteq> j" and "force_newton_pair w \<noteq> 0 \<or> j < atom_nlocal w"
  shows "atom_torque (accumulate w i j g k (fs1, fs2, fs3) st) j c =
           (if c = 0 then atom_torque st j 0 - radj g * (rinv k * (dely g * fs3 - delz g * fs2))
            else if c = 1 then atom_torque st j 1 - radj g * (rinv k * (delz g * fs1 - delx g * fs3))
            else if c = 2 then atom_torque st j 2 - radj g * (rinv k * (delx g * fs2 - dely g * fs1))
            else atom_torque st j c)"
  using assms by (simp add: accumulate_def Let_def add2_apply)


lemma ex_overlap_shear:
  "shear_update (ex_cfg mu) (ex_world 1 1) 0 0 (pair_geom (ex_world 1 1) 0 1)
     \<lparr>rinv = 1, rsqinv = 1, vnnr = 0, meff = 1 / 2, ccel = 1, vtr1 = 0, vtr2 = 0, vtr3 = 0\<rparr>
     ((ex_state False 0 1)\<lparr>m_D := 1\<rparr>) =
   (history_set 0 0 2 0 (history_set 0 0 1 1 (history_set 0 0 0 0
      (history_set 0 0 2 0 (history_set 0 0 1 1 (history_set 0 0 0 0
         (touch_set 0 0 1 ((ex_state False 0 1)\<lparr>m_D := 1\<rparr>))))))),
    1, 0, - 1, 0)"
  by (simp add: shear_update_def history_def ex_simps Let_def set2_apply)

lemma rescale_below:
  assumes "sqrt (fs1 * fs1 + fs2 * fs2 + fs3 * fs3) < fn_limit cfg g k st"
  shows "rescale cfg i jj g k shrmag (fs1, fs2, fs3) st = Inr (st, fs1, fs2, fs3)"
  using assms by (simp add: rescale_def Let_def)


lemma scaled_magnitude:
  fixes a b c q :: real
  assumes "0 \<le> q"
  shows "sqrt (a * q * (a * q) + b * q * (b * q) + c * q * (c * q))
           = sqrt (a * a + b * b + c * c) * q"
proof -
  have "a * q * (a * q) + b * q * (b * q) + c * q * (c * q) = (a * a + b * b + c * c) * (q * q)"
    by (simp add: algebra_simps)
  then show ?thesis using assms by (simp add: real_sqrt_mult)
qed

lemma rescale_unbonded_scaled:
  assumes "\<not> is_cohesive st (ID1 g - 1) (ID2 g - 1)"
    and "fs = sqrt (fs1 * fs1 + fs2 * fs2 + fs3 * fs3)"
    and "fn = xmu cfg * \<bar>ccel k * r g\<bar>"
    and "fs \<ge> fn" and "shrmag \<noteq> 0" and "fs \<noteq> 0" and "kt cfg \<noteq> 0"
  shows "rescale cfg i jj g k shrmag (fs1, fs2, fs3) st =
           Inr (history_set i jj 2
                  ((fn / fs) * (history st i jj 2 + meff k * gammat cfg * vtr3 k / kt cfg)
                   - meff k * gammat cfg * vtr3 k / kt cfg)
                  (history_set i jj 1
                     ((fn / fs) * (history st i jj 1 + meff k * gammat cfg * vtr2 k / kt cfg)
                      - meff k * gammat cfg * vtr2 k / kt cfg)
                     (history_set i jj 0
                        ((fn / fs) * (history st i jj 0 + meff k * gammat cfg * vtr1 k / kt cfg)
                         - meff k * gammat cfg * vtr1 k / kt cfg) st)),
                fs1 * (fn / fs), fs2 * (fn / fs), fs3 * (fn / fs))"
  using assms
  by (simp add: rescale_def fn_limit_def Let_def history_history_set)

lemma rescale_unbonded_zero:
  assumes "\<not> is_cohesive st (ID1 g - 1) (ID2 g - 1)"
    and "sqrt (fs1 * fs1 + fs2 * fs2 + fs3 * fs3) \<ge> xmu cfg * \<bar>ccel k * r g\<bar>"
  shows "rescale cfg i jj g k 0 (fs1, fs2, fs3) st = Inr (st, 0, 0, 0)"
  using assms by (simp add: rescale_def fn_limit_def Let_def)


subsection \<open>Divisions in the force evaluation\<close>

lemma kinematics_Inr_iff:
  "(\<exists>k. kinematics cfg w i j g st = Inr k)
     \<longleftrightarrow> (r g \<noteq> 0 \<and> rsq g \<noteq> 0 \<and> pair_mi w i + pair_mi w j \<noteq> 0)"
  by (simp add: kinematics_def Let_def)

lemma kinematics_error:
  "kinematics cfg w i j g st = Inl e \<Longrightarrow> e = DivByZero"
  by (auto simp: kinematics_def Let_def split: if_splits)

lemma pair_geom_rsq: "rsq (pair_geom w i j) = 0 \<longleftrightarrow> r (pair_geom w i j) = 0"
  by (simp add: pair_geom_def Let_def)

lemma rescale_Inr_iff:
  "(\<exists>res. rescale cfg i jj g k shrmag (fs1, fs2, fs3) st = Inr res)
     \<longleftrightarrow> (sqrt (fs1 * fs1 + fs2 * fs2 + fs3 * fs3) < fn_limit cfg g k st \<or> shrmag = 0 \<or>
          (sqrt (fs1 * fs1 + fs2 * fs2 + fs3 * fs3) \<noteq> 0 \<and> kt cfg \<noteq> 0))"
  by (auto simp: rescale_def Let_def)

lemma rescale_error:
  "rescale cfg i jj g k shrmag fsv st = Inl e \<Longrightarrow> e = DivByZero"
  by (auto simp: rescale_def Let_def bind_err_Inl_iff split: if_splits prod.splits)

lemma rescale_fallback:
  assumes "sqrt (fs1 * fs1 + fs2 * fs2 + fs3 * fs3) \<ge> fn_limit cfg g k st" and "shrmag = 0"
  shows "\<exists>s2. rescale cfg i jj g k shrmag (fs1, fs2, fs3) st = Inr (s2, 0, 0, 0)"
  using assms by (simp add: rescale_def Let_def)

lemma force_eval_error:
  assumes "force_eval cfg w i j jj g st = Inl e"
  shows "e = DivByZero"
proof (cases "kinematics cfg w i j g st")
  case (Inl e')
  then show ?thesis using assms kinematics_error by (simp add: force_eval_def)
next
  case (Inr k)
  obtain s1 shrmag fsv where su: "shear_update cfg w i jj g k st = (s1, shrmag, fsv)"
    by (cases "shear_update cfg w i jj g k st") auto
  show ?thesis
  proof (cases "rescale cfg i jj g k shrmag fsv s1")
    case (Inl e')
    then show ?thesis using assms Inr su rescale_error by (simp add: force_eval_def)
  next
    case rs: (Inr res)
    then show ?thesis using assms Inr su by (cases res) (simp add: force_eval_def)
  qed
qed

lemma force_eval_Inr_iff:
  "(\<exists>st'. force_eval cfg w i j jj g st = Inr st') \<longleftrightarrow>
   (\<exists>k s1 shrmag fsv res. kinematics cfg w i j g st = Inr k \<and>
      shear_update cfg w i jj g k st = (s1, shrmag, fsv) \<and>
      rescale cfg i jj g k shrmag fsv s1 = Inr res)"
proof
  assume "\<exists>st'. force_eval cfg w i j jj g st = Inr st'"
  then obtain st' where "force_eval cfg w i j jj g st = Inr st'" by blast
  from force_eval_Inr[OF this] show "\<exists>k s1 shrmag fsv res.
      kinematics cfg w i j g st = Inr k \<and>
      shear_update cfg w i jj g k st = (s1, shrmag, fsv) \<and>
      rescale cfg i jj g k shrmag fsv s1 = Inr res" by blast
next
  assume "\<exists>k s1 shrmag fsv res. kinematics cfg w i j g st = Inr k \<and>
      shear_update cfg w i jj g k st = (s1, shrmag, fsv) \<and>
      rescale cfg i jj g k shrmag fsv s1 = Inr res"
  then obtain k s1 shrmag fsv res where
    "kinematics cfg w i j g st = Inr k" "shear_update cfg w i jj g k st = (s1, shrmag, fsv)"
    "rescale cfg i jj g k shrmag fsv s1 = Inr res" by blast
  then show "\<exists>st'. force_eval cfg w i j jj g st = Inr st'"
    by (cases res) (simp add: force_eval_def)
qed

lemma ex_coincident_pre_force:
  "pre_force (ex_cfg 1) (ex_world 1 0) 0 0 1 (ex_state False 0 0)
     = Inr ((ex_state False 0 0)\<lparr>m_D := 2\<rparr>, 1)"
  apply (simp add: pre_force_def in_table_def create_bonds_def ex_simps Let_def)
  apply (simp add: unset_nontouching_def tensile_check_def ex_simps Let_def)
  done

lemma ex_coincident_step:
  "pair_step (ex_cfg 1) (ex_world 1 0) 0 0 1 (ex_state False 0 0) = Inl DivByZero"
  apply (simp add: pair_step_def ex_coincident_pre_force ex_world_simps)
  apply (simp add: force_eval_def kinematics_def ex_simps)
  done

lemma ex_normal_shear_pre_force:
  "pre_force (ex_cfg 1) (ex_world 1 2) 0 0 1 (ex_state False 1 0)
     = Inr ((ex_state False 1 0)\<lparr>m_D := 0\<rparr>, 1)"
  apply (simp add: pre_force_def in_table_def create_bonds_def ex_simps Let_def)
  apply (simp add: unset_nontouching_def tensile_check_def ex_simps Let_def)
  done

lemma ex_normal_shear_step:
  "pair_step (ex_cfg 1) (ex_world 1 2) 0 0 1 (ex_state False 1 0) = Inl DivByZero"
  apply (simp add: pair_step_def ex_normal_shear_pre_force ex_world_simps)
  apply (simp add: force_eval_def kinematics_def pair_mi_def ex_simps Let_def)
  apply (simp add: shear_update_def history_def ex_simps Let_def set2_apply)
  apply (simp add: rescale_def fn_limit_def history_def ex_simps Let_def set2_apply)
  done


subsection \<open>The three-atom configuration\<close>

lemma ex_world3_simps:
  "update_ntimestep (ex_world3 ts d) = ts"
  "atom_tag (ex_world3 ts d) a = a + 1"
  "NEIGHMASK (ex_world3 ts d) = 1073741823"
  "list_ilist (ex_world3 ts d) = [0, 1, 2]"
  "list_firstneigh (ex_world3 ts d) 0 = [1, 2]"
  by (simp_all add: ex_world3_def ex_world_def)

lemma ex_geom3:
  "pair_geom (ex_world3 ts d) 0 1 =
     \<lparr>ID1 = 1, ID2 = 2, delx = - d, dely = 0, delz = 0, rsq = d * d,
      radi = 1, radj = 1, radsum = 2, r = \<bar>d\<bar>, radmin = 1\<rparr>"
  by (simp add: pair_geom_def ex_world3_def ex_world_def Let_def)

lemma ex_state3_simps:
  "firstvalue (ex_state3 b hx hy) = firstvalue (ex_state b hx hy)"
  "tdim (ex_state3 b hx hy) = 3"
  "is_cohesive (ex_state3 b hx hy) = is_cohesive (ex_state b hx hy)"
  "m_Dinitial (ex_state3 b hx hy) = m_Dinitial (ex_state b hx hy)"
  "m_Dtensile (ex_state3 b hx hy) = m_Dtensile (ex_state b hx hy)"
  by (simp_all add: ex_state3_def)

lemma ex_tensile_step3:
  "pair_step (ex_cfg 1) (ex_world3 1 3) 0 0 1 (ex_state3 True 0 0) =
     Inr (clear_bond 1 2 (history_set 0 0 5 1
            (unset_contact 0 0 ((ex_state3 True 0 0)\<lparr>m_D := - 1\<rparr>))))"
  apply (simp add: pair_step_def pre_force_def in_table_def create_bonds_def ex_simps
      ex_world3_simps ex_geom3 ex_state3_simps Let_def)
  apply (simp add: unset_nontouching_def tensile_check_def ex_simps ex_state3_simps Let_def)
  apply (simp add: history_def unset_contact_firstvalue ex_simps ex_state3_simps)
  done


lemma ex_geom3_second:
  "pair_geom (ex_world3 ts d) 0 2 =
     \<lparr>ID1 = 1, ID2 = 3, delx = 0, dely = - 3, delz = 0, rsq = 9,
      radi = 1, radj = 1, radsum = 2, r = 3, radmin = 1\<rparr>"
proof -
  have "sqrt 9 = (3::real)" using real_sqrt_abs2[of 3] by simp
  then show ?thesis by (simp add: pair_geom_def ex_world3_def ex_world_def Let_def)
qed

lemma ex_tensile_loop3:
  "\<exists>s. jloop (ex_cfg 1) (ex_world3 1 3) 0 0 (list_firstneigh (ex_world3 1 3) 0)
          (ex_state3 True 0 0) = Inr s \<and> history s 0 0 5 = 0"
  apply (simp add: ex_world3_simps ex_tensile_step3)
  apply (simp add: pair_step_def pre_force_def in_table_def create_bonds_def ex_simps
      ex_world3_simps ex_geom3_second ex_state3_simps Let_def)
  apply (simp add: unset_nontouching_def tensile_check_def ex_simps ex_state3_simps Let_def
      set_both_apply)
  apply ((simp add: history_def unset_contact_firstvalue set2_apply)?)
  done

subsection \<open>Configuration\<close>

lemma numeric_arg_Inr: "numeric_arg f s = Inr a \<longleftrightarrow> f s = Some a"
  by (simp add: numeric_arg_def split: option.splits)

lemma default_arg_Inr:
  "(if b then Inr x else numeric_arg f s) = Inr a \<longleftrightarrow> (if b then a = x else f s = Some a)"
  by (auto simp: numeric_arg_Inr)

lemma check_Inr: "(if c then Inl e else Inr v) = Inr cfg \<longleftrightarrow> \<not> c \<and> cfg = v"
  by auto

lemma settings_length: "settings numeric inumeric arg = Inr cfg \<Longrightarrow> length arg = 9"
  by (simp add: settings_def split: if_splits)

lemma settings_Inr_iff:
  "settings numeric inumeric arg = Inr cfg \<longleftrightarrow>
     length arg = 9 \<and>
     (\<exists>kn' kt' gn' gt0 mu' df' t' c' ef'.
        numeric (arg ! 0) = Some kn' \<and>
        (if arg ! 1 = ''NULL'' then kt' = kn' * 2 / 7 else numeric (arg ! 1) = Some kt') \<and>
        numeric (arg ! 2) = Some gn' \<and>
        (if arg ! 3 = ''NULL'' then gt0 = 0.5 * gn' else numeric (arg ! 3) = Some gt0) \<and>
        numeric (arg ! 4) = Some mu' \<and>
        inumeric (arg ! 5) = Some df' \<and>
        numeric (arg ! 6) = Some t' \<and>
        numeric (arg ! 7) = Some c' \<and>
        numeric (arg ! 8) = Some ef' \<and>
        0 \<le> kn' \<and> 0 \<le> kt' \<and> 0 \<le> gn' \<and> 0 \<le> (if df' = 0 then 0 else gt0) \<and>
        0 \<le> mu' \<and> mu' \<le> 10000 \<and> (df' = 0 \<or> df' = 1) \<and>
        0 \<le> t' \<and> 0 \<le> c' \<and> 0 \<le> ef' \<and>
        cfg = \<lparr>kn = kn', kt = kt', gamman = gn', gammat = (if df' = 0 then 0 else gt0),
                xmu = mu', dampflag = df', m_t = t', m_c = c', m_enlargeFactor = ef'\<rparr>)"
proof (cases "length arg = 9")
  case False
  then show ?thesis by (simp add: settings_def)
next
  case True
  have "settings numeric inumeric arg = Inr cfg \<longleftrightarrow>
     (\<exists>kn'. numeric (arg ! 0) = Some kn' \<and>
      (\<exists>kt'. (if arg ! 1 = ''NULL'' then kt' = kn' * 2 / 7 else numeric (arg ! 1) = Some kt') \<and>
      (\<exists>gn'. numeric (arg ! 2) = Some gn' \<and>
      (\<exists>gt0. (if arg ! 3 = ''NULL'' then gt0 = 0.5 * gn' else numeric (arg ! 3) = Some gt0) \<and>
      (\<exists>mu'. numeric (arg ! 4) = Some mu' \<and>
      (\<exists>df'. inumeric (arg ! 5) = Some df' \<and>
      (\<exists>t'. numeric (arg ! 6) = Some t' \<and>
      (\<exists>c'. numeric (arg ! 7) = Some c' \<and>
      (\<exists>ef'. numeric (arg ! 8) = Some ef' \<and>
        \<not> (kn' < 0 \<or> kt' < 0 \<or> gn' < 0 \<or> (if df' = 0 then 0 else gt0) < 0 \<or>
           mu' < 0 \<or> mu' > 10000 \<or> df' < 0 \<or> c' < 0 \<or> t' < 0 \<or> ef' < 0 \<or> df' > 1) \<and>
        cfg = \<lparr>kn = kn', kt = kt', gamman = gn', gammat = (if df' = 0 then 0 else gt0),
                xmu = mu', dampflag = df', m_t = t', m_c = c',
                m_enlargeFactor = ef'\<rparr>)))))))))"
    unfolding settings_def Let_def
    by (simp only: True bind_err_Inr_iff default_arg_Inr numeric_arg_Inr check_Inr
        if_False simp_thms)
  also have "\<dots> \<longleftrightarrow> (\<exists>kn' kt' gn' gt0 mu' df' t' c' ef'.
        numeric (arg ! 0) = Some kn' \<and>
        (if arg ! 1 = ''NULL'' then kt' = kn' * 2 / 7 else numeric (arg ! 1) = Some kt') \<and>
        numeric (arg ! 2) = Some gn' \<and>
        (if arg ! 3 = ''NULL'' then gt0 = 0.5 * gn' else numeric (arg ! 3) = Some gt0) \<and>
        numeric (arg ! 4) = Some mu' \<and>
        inumeric (arg ! 5) = Some df' \<and>
        numeric (arg ! 6) = Some t' \<and>
        numeric (arg ! 7) = Some c' \<and>
        numeric (arg ! 8) = Some ef' \<and>
        0 \<le> kn' \<and> 0 \<le> kt' \<and> 0 \<le> gn' \<and> 0 \<le> (if df' = 0 then 0 else gt0) \<and>
        0 \<le> mu' \<and> mu' \<le> 10000 \<and> (df' = 0 \<or> df' = 1) \<and>
        0 \<le> t' \<and> 0 \<le> c' \<and> 0 \<le> ef' \<and>
        cfg = \<lparr>kn = kn', kt = kt', gamman = gn', gammat = (if df' = 0 then 0 else gt0),
                xmu = mu', dampflag = df', m_t = t', m_c = c', m_enlargeFactor = ef'\<rparr>)"
  proof -
    have range: "\<not> (kn' < 0 \<or> kt' < 0 \<or> gn' < 0 \<or> gt' < 0 \<or>
           mu' < 0 \<or> mu' > 10000 \<or> df' < 0 \<or> c' < 0 \<or> t' < 0 \<or> ef' < 0 \<or> df' > 1)
       \<longleftrightarrow> (0 \<le> kn' \<and> 0 \<le> kt' \<and> 0 \<le> gn' \<and> 0 \<le> gt' \<and>
        0 \<le> mu' \<and> mu' \<le> 10000 \<and> (df' = 0 \<or> df' = 1) \<and>
        0 \<le> t' \<and> 0 \<le> c' \<and> 0 \<le> ef')"
      for kn' kt' gn' gt' mu' t' c' ef' :: real and df' :: int
      by auto
    show ?thesis unfolding range by blast
  qed
  finally show ?thesis using True by simp
qed

lemma ex_settings_null:
  "settings sample_numeric sample_inumeric
     [''1'', ''NULL'', ''2'', ''NULL'', ''1'', ''1'', ''1'', ''1'', ''1'']
   = Inr \<lparr>kn = 1, kt = 2 / 7, gamman = 2, gammat = 1, xmu = 1, dampflag = 1,
           m_t = 1, m_c = 1, m_enlargeFactor = 1\<rparr>"
  by (simp add: settings_def numeric_arg_def sample_numeric_def sample_inumeric_def)

lemma ex_settings_negative:
  "settings sample_numeric sample_inumeric
     [''1'', ''1'', ''1'', ''-1'', ''1'', ''0'', ''1'', ''1'', ''1'']
   = Inr \<lparr>kn = 1, kt = 1, gamman = 1, gammat = 0, xmu = 1, dampflag = 0,
           m_t = 1, m_c = 1, m_enlargeFactor = 1\<rparr>"
  by (simp add: settings_def numeric_arg_def sample_numeric_def sample_inumeric_def)


lemma ex_overlap_rescale:
  "rescale (ex_cfg (1 / 2)) 0 0 (pair_geom (ex_world 1 1) 0 1)
     \<lparr>rinv = 1, rsqinv = 1, vnnr = 0, meff = 1 / 2, ccel = 1, vtr1 = 0, vtr2 = 0, vtr3 = 0\<rparr>
     1 (0, - 1, 0)
     (history_set 0 0 2 0 (history_set 0 0 1 1 (history_set 0 0 0 0
        (history_set 0 0 2 0 (history_set 0 0 1 1 (history_set 0 0 0 0
           (touch_set 0 0 1 ((ex_state False 0 1)\<lparr>m_D := 1\<rparr>)))))))) =
   Inr (history_set 0 0 2 0 (history_set 0 0 1 (1 / 2) (history_set 0 0 0 0
        (history_set 0 0 2 0 (history_set 0 0 1 1 (history_set 0 0 0 0
        (history_set 0 0 2 0 (history_set 0 0 1 1 (history_set 0 0 0 0
           (touch_set 0 0 1 ((ex_state False 0 1)\<lparr>m_D := 1\<rparr>)))))))))),
        0, - (1 / 2), 0)"
  by (simp add: rescale_def fn_limit_def history_def ex_simps Let_def set2_apply)


lemma ex_normal_shear_kin:
  "kinematics (ex_cfg 1) (ex_world 1 2) 0 1 (pair_geom (ex_world 1 2) 0 1)
     ((ex_state False 1 0)\<lparr>m_D := 0\<rparr>) =
     Inr \<lparr>rinv = 1 / 2, rsqinv = 1 / 4, vnnr = 0, meff = 1 / 2, ccel = 0,
           vtr1 = 0, vtr2 = 0, vtr3 = 0\<rparr>"
  by (simp add: kinematics_def pair_mi_def ex_simps Let_def)

lemma ex_normal_shear_update:
  "shear_update (ex_cfg 1) (ex_world 1 2) 0 0 (pair_geom (ex_world 1 2) 0 1)
     \<lparr>rinv = 1 / 2, rsqinv = 1 / 4, vnnr = 0, meff = 1 / 2, ccel = 0,
      vtr1 = 0, vtr2 = 0, vtr3 = 0\<rparr>
     ((ex_state False 1 0)\<lparr>m_D := 0\<rparr>) =
   (history_set 0 0 2 0 (history_set 0 0 1 0 (history_set 0 0 0 0
      (history_set 0 0 2 0 (history_set 0 0 1 0 (history_set 0 0 0 1
         (touch_set 0 0 1 ((ex_state False 1 0)\<lparr>m_D := 0\<rparr>))))))),
    1, 0, 0, 0)"
  by (simp add: shear_update_def history_def ex_simps Let_def set2_apply)

lemma ex_normal_shear_rescale:
  "rescale (ex_cfg 1) 0 0 (pair_geom (ex_world 1 2) 0 1)
     \<lparr>rinv = 1 / 2, rsqinv = 1 / 4, vnnr = 0, meff = 1 / 2, ccel = 0,
      vtr1 = 0, vtr2 = 0, vtr3 = 0\<rparr>
     1 (0, 0, 0)
     (history_set 0 0 2 0 (history_set 0 0 1 0 (history_set 0 0 0 0
        (history_set 0 0 2 0 (history_set 0 0 1 0 (history_set 0 0 0 1
           (touch_set 0 0 1 ((ex_state False 1 0)\<lparr>m_D := 0\<rparr>)))))))) = Inl DivByZero"
  by (simp add: rescale_def fn_limit_def ex_simps Let_def)

lemma ex_zero_kt_rescale:
  "rescale ((ex_cfg (1 / 2))\<lparr>kt := 0\<rparr>) 0 0 (pair_geom (ex_world 1 1) 0 1)
     \<lparr>rinv = 1, rsqinv = 1, vnnr = 0, meff = 1 / 2, ccel = 1, vtr1 = 0, vtr2 = 0, vtr3 = 0\<rparr>
     1 (0, - 1, 0) (ex_state False 0 1) = Inl DivByZero"
  by (simp add: rescale_def fn_limit_def ex_simps ex_cfg_def Let_def)


section \<open>The claims\<close>

text \<open>
  C1. On a step with \<open>ntimestep < 1\<close> (the formation pass), for a candidate pair
  \<open>(i, j)\<close> with \<open>radsum = radius[i] + radius[j]\<close>, \<open>r\<close> the distance of the
  centres and \<open>radmin\<close> the smaller radius, the pair is marked bonded exactly when
  \<open>r \<le> radsum + (enlargeFactor - 1) * radmin\<close>, equality included. A bonded pair gets
  the initial gap \<open>radsum - r\<close> and the tensile failure distance
  \<open>pi * radmin * tensileStrength / kn\<close> in both directions. A refused pair gets
  both fields zeroed, the flag false in both directions and \<open>touch[jj] = 0\<close>. The
  quotient by \<open>kn\<close> is defined when \<open>kn \<noteq> 0\<close>. The statement is about the
  bond-creation block; the rest of the same pass can clear the flag again.
\<close>

theorem create_bonds_formation:
  assumes "update_ntimestep w < 1" and "kn cfg \<noteq> 0"
  shows "\<exists>st' ignore.
    create_bonds cfg w i jj (pair_geom w i j) st = Inr (st', ignore) \<and>
    (let a = atom_tag w i - 1; b = atom_tag w j - 1;
         radsum' = atom_radius w i + atom_radius w j;
         radmin' = min (atom_radius w i) (atom_radius w j);
         r' = sqrt ((atom_x w i 0 - atom_x w j 0)\<^sup>2 + (atom_x w i 1 - atom_x w j 1)\<^sup>2
                    + (atom_x w i 2 - atom_x w j 2)\<^sup>2);
         bond = (r' \<le> radsum' + (m_enlargeFactor cfg - 1) * radmin')
     in (is_cohesive st' a b = bond) \<and> (is_cohesive st' b a = bond) \<and>
        (bond \<longrightarrow>
           m_Dinitial st' a b = radsum' - r' \<and> m_Dinitial st' b a = radsum' - r' \<and>
           m_Dtensile st' a b = pi * radmin' * m_t cfg / kn cfg \<and>
           m_Dtensile st' b a = pi * radmin' * m_t cfg / kn cfg \<and>
           firstflag st' = firstflag st \<and> ignore = 1) \<and>
        (\<not> bond \<longrightarrow>
           m_Dinitial st' a b = 0 \<and> m_Dinitial st' b a = 0 \<and>
           m_Dtensile st' a b = 0 \<and> m_Dtensile st' b a = 0 \<and>
           firstflag st' i jj = 0 \<and> ignore = - 1))"
  using assms
  by (simp add: create_bonds_def pair_geom_def Let_def set_both_apply touch_set_def set2_apply
      power2_eq_square min.commute)

theorem create_bonds_formation_witness:
  "update_ntimestep (ex_world 0 2) < 1 \<and> kn (ex_cfg 1) \<noteq> 0 \<and>
   (\<exists>st' ignore.
      create_bonds (ex_cfg 1) (ex_world 0 2) 0 0 (pair_geom (ex_world 0 2) 0 1)
        (ex_state False 0 0) = Inr (st', ignore) \<and>
      is_cohesive st' 0 1 \<and> is_cohesive st' 1 0 \<and>
      m_Dinitial st' 0 1 = 0 \<and> m_Dtensile st' 1 0 = pi \<and> ignore = 1) \<and>
   (\<exists>st' ignore.
      create_bonds (ex_cfg 1) (ex_world 0 (11 / 5)) 0 0 (pair_geom (ex_world 0 (11 / 5)) 0 1)
        (ex_state False 0 0) = Inr (st', ignore) \<and>
      is_cohesive st' 0 1 \<and> is_cohesive st' 1 0 \<and>
      m_Dinitial st' 0 1 = - (1 / 5) \<and> ignore = 1) \<and>
   (\<exists>st' ignore.
      create_bonds (ex_cfg 1) (ex_world 0 3) 0 0 (pair_geom (ex_world 0 3) 0 1)
        (ex_state True 0 0) = Inr (st', ignore) \<and>
      \<not> is_cohesive st' 0 1 \<and> \<not> is_cohesive st' 1 0 \<and>
      m_Dinitial st' 0 1 = 0 \<and> m_Dtensile st' 1 0 = 0 \<and> firstflag st' 0 0 = 0 \<and>
      ignore = - 1)"
proof -
  have h: "update_ntimestep (ex_world 0 d) < 1" "kn (ex_cfg 1) \<noteq> 0" for d
    by (simp_all add: ex_world_def ex_cfg_def)
  have s1: "sqrt (121 / 25) = (11 / 5 :: real)"
    using real_sqrt_abs2[of "11 / 5 :: real"] by simp
  have s2: "sqrt 9 = (3 :: real)"
    using real_sqrt_abs2[of "3 :: real"] by simp
  from create_bonds_formation[OF h, of 2 0 0 1 "ex_state False 0 0"]
  obtain sa ia where a:
    "create_bonds (ex_cfg 1) (ex_world 0 2) 0 0 (pair_geom (ex_world 0 2) 0 1)
        (ex_state False 0 0) = Inr (sa, ia)"
    "is_cohesive sa 0 1 \<and> is_cohesive sa 1 0 \<and>
      m_Dinitial sa 0 1 = 0 \<and> m_Dtensile sa 1 0 = pi \<and> ia = 1"
    by (auto simp: ex_world_def ex_cfg_def Let_def)
  from create_bonds_formation[OF h, of "11 / 5" 0 0 1 "ex_state False 0 0"]
  obtain sb ib where b:
    "create_bonds (ex_cfg 1) (ex_world 0 (11 / 5)) 0 0 (pair_geom (ex_world 0 (11 / 5)) 0 1)
        (ex_state False 0 0) = Inr (sb, ib)"
    "is_cohesive sb 0 1 \<and> is_cohesive sb 1 0 \<and> m_Dinitial sb 0 1 = - (1 / 5) \<and> ib = 1"
    by (auto simp: ex_world_def ex_cfg_def Let_def power2_eq_square s1)
  from create_bonds_formation[OF h, of 3 0 0 1 "ex_state True 0 0"]
  obtain sc ic where c:
    "create_bonds (ex_cfg 1) (ex_world 0 3) 0 0 (pair_geom (ex_world 0 3) 0 1)
        (ex_state True 0 0) = Inr (sc, ic)"
    "\<not> is_cohesive sc 0 1 \<and> \<not> is_cohesive sc 1 0 \<and>
      m_Dinitial sc 0 1 = 0 \<and> m_Dtensile sc 1 0 = 0 \<and> firstflag sc 0 0 = 0 \<and> ic = - 1"
    by (auto simp: ex_world_def ex_cfg_def Let_def power2_eq_square s2)
  show ?thesis using h a b c by blast
qed

text \<open>
  C2. When the pair is bonded after the bond-creation block and the stretch
  \<open>D = (radsum - r) - _Dinitial\<close> is negative with \<open>|D| \<ge> _Dtensile\<close>, the pass
  ends in tensile failure: the flag is false in both directions, the counter
  \<open>_history[5]\<close> has grown by exactly 1, \<open>touch[jj]\<close> is 0 and
  \<open>_history[0..2]\<close> are 0, the force evaluation is skipped (\<open>_ignore = -1\<close>, forces
  and torques untouched), and in every later state, reached by calls of \<open>compute\<close>
  with \<open>ntimestep \<ge> 1\<close>, the pair is still unbonded in both directions.
\<close>
theorem tensile_failure:
  assumes "j = jraw AND NEIGHMASK w" and "g = pair_geom w i j"
    and "in_table st (ID1 g - 1) (ID2 g - 1)"
    and "create_bonds cfg w i jj g st = Inr (s1, ign1)"
    and "is_cohesive s1 (ID1 g - 1) (ID2 g - 1)"
    and "D = (radsum g - r g) - m_Dinitial s1 (ID1 g - 1) (ID2 g - 1)"
    and "D < 0" and "\<bar>D\<bar> \<ge> m_Dtensile s1 (ID1 g - 1) (ID2 g - 1)"
  shows "\<exists>st'. pair_step cfg w i jj jraw st = Inr st' \<and>
           pre_force cfg w i jj j st = Inr (st', - 1) \<and>
           \<not> is_cohesive st' (ID1 g - 1) (ID2 g - 1) \<and>
           \<not> is_cohesive st' (ID2 g - 1) (ID1 g - 1) \<and>
           history st' i jj 5 = history st i jj 5 + 1 \<and>
           firstflag st' i jj = 0 \<and>
           history st' i jj 0 = 0 \<and> history st' i jj 1 = 0 \<and> history st' i jj 2 = 0 \<and>
           atom_f st' = atom_f st \<and> atom_torque st' = atom_torque st \<and>
           (\<forall>st''. later cfg st' st'' \<longrightarrow>
              \<not> is_cohesive st'' (ID1 g - 1) (ID2 g - 1) \<and>
              \<not> is_cohesive st'' (ID2 g - 1) (ID1 g - 1))"
proof -
  define s3 where "s3 = clear_bond (ID1 g) (ID2 g)
                  (history_set i jj 5 (history s1 i jj 5 + 1)
                     (unset_contact i jj (s1\<lparr>m_D := D\<rparr>)))"
  have pf: "pre_force cfg w i jj j st = Inr (s3, - 1)"
    unfolding s3_def assms(6)
    using assms(3,2,4,5) assms(7,8)[unfolded assms(6)]
    by (rule tensile_failure_pre_force)
  then have ps: "pair_step cfg w i jj jraw st = Inr s3"
    by (simp add: pair_step_def Let_def assms(1)[symmetric])
  have fv: "firstvalue s1 = firstvalue st" using assms(4) by (rule create_bonds_firstvalue)
  have ff: "atom_f s1 = atom_f st \<and> atom_torque s1 = atom_torque st"
    using assms(4) by (rule create_bonds_forces)
  have b: "\<not> is_cohesive s3 (ID1 g - 1) (ID2 g - 1)" "\<not> is_cohesive s3 (ID2 g - 1) (ID1 g - 1)"
    by (simp_all add: s3_def set_both_apply)
  have h5: "history s3 i jj 5 = history st i jj 5 + 1"
    by (simp add: s3_def history_def set2_apply fv)
  have t: "firstflag s3 i jj = 0"
    by (simp add: s3_def set2_apply)
  have h012: "history s3 i jj 0 = 0" "history s3 i jj 1 = 0" "history s3 i jj 2 = 0"
    by (simp_all add: s3_def history_def set2_apply unset_contact_firstvalue)
  have f: "atom_f s3 = atom_f st" "atom_torque s3 = atom_torque st"
    using ff by (simp_all add: s3_def)
  have l: "\<not> is_cohesive st'' (ID1 g - 1) (ID2 g - 1) \<and> \<not> is_cohesive st'' (ID2 g - 1) (ID1 g - 1)"
    if "later cfg s3 st''" for st''
    using later_no_new_bonds[OF that] b by (auto simp: no_new_bonds_def)
  show ?thesis using ps pf b h5 t h012 f l by blast
qed

theorem tensile_failure_witness:
  "(1::int) = 1 AND NEIGHMASK (ex_world 1 3) \<and>
   in_table (ex_state True 0 0) 0 1 \<and>
   create_bonds (ex_cfg 1) (ex_world 1 3) 0 0 (pair_geom (ex_world 1 3) 0 1) (ex_state True 0 0)
     = Inr (ex_state True 0 0, 1) \<and>
   is_cohesive (ex_state True 0 0) 0 1 \<and>
   (2 - 3) - m_Dinitial (ex_state True 0 0) 0 1 = (- 1 :: real) \<and>
   \<bar>- 1 :: real\<bar> \<ge> m_Dtensile (ex_state True 0 0) 0 1 \<and>
   (\<exists>st' st''.
      pair_step (ex_cfg 1) (ex_world 1 3) 0 0 1 (ex_state True 0 0) = Inr st' \<and>
      \<not> is_cohesive st' 0 1 \<and> \<not> is_cohesive st' 1 0 \<and>
      history st' 0 0 5 = history (ex_state True 0 0) 0 0 5 + 1 \<and>
      firstflag st' 0 0 = 0 \<and>
      1 \<le> update_ntimestep (ex_world 2 2) \<and>
      compute (ex_cfg 1) (ex_world 2 2) st' = Inr st'' \<and>
      later (ex_cfg 1) st' st'' \<and>
      \<not> is_cohesive st'' 0 1 \<and> \<not> is_cohesive st'' 1 0)"
proof -
  let ?w = "ex_world 1 3" and ?st = "ex_state True 0 0"
  let ?g = "pair_geom ?w 0 1"
  have h1: "(1::int) = 1 AND NEIGHMASK ?w" by (simp add: ex_simps)
  have h2: "?g = pair_geom ?w 0 1" by simp
  have h3: "in_table ?st (ID1 ?g - 1) (ID2 ?g - 1)" by (simp add: in_table_def ex_simps)
  have h4: "create_bonds (ex_cfg 1) ?w 0 0 ?g ?st = Inr (?st, 1)"
    by (simp add: create_bonds_later ex_simps)
  have h5: "is_cohesive ?st (ID1 ?g - 1) (ID2 ?g - 1)" by (simp add: ex_simps)
  have h6: "(- 1 :: real) = (radsum ?g - r ?g) - m_Dinitial ?st (ID1 ?g - 1) (ID2 ?g - 1)"
    by (simp add: ex_simps)
  have h7: "(- 1 :: real) < 0" by simp
  have h8: "\<bar>- 1 :: real\<bar> \<ge> m_Dtensile ?st (ID1 ?g - 1) (ID2 ?g - 1)" by (simp add: ex_simps)
  from tensile_failure[OF h1 h2 h3 h4 h5 h6 h7 h8] obtain st' where
    ps: "pair_step (ex_cfg 1) ?w 0 0 1 ?st = Inr st'" and
    nb: "\<not> is_cohesive st' 0 1" "\<not> is_cohesive st' 1 0" and
    h: "history st' 0 0 5 = history ?st 0 0 5 + 1" "firstflag st' 0 0 = 0" and
    lt: "\<forall>st''. later (ex_cfg 1) st' st'' \<longrightarrow> \<not> is_cohesive st'' 0 1 \<and> \<not> is_cohesive st'' 1 0"
    by (auto simp: ex_simps)
  from ps ex_tensile_step ex_later_compute obtain st'' where
    c: "compute (ex_cfg 1) (ex_world 2 2) st' = Inr st''" by auto
  have ts: "1 \<le> update_ntimestep (ex_world 2 2)" by (simp add: ex_simps)
  have l: "later (ex_cfg 1) st' st''"
    using later_refl ts c by (rule later_compute)
  have "\<not> is_cohesive st'' 0 1 \<and> \<not> is_cohesive st'' 1 0" using lt l by blast
  then show ?thesis
    using h1 h3 h4 h5 h6 h8 ps nb h ts c l by (auto simp: ex_simps)
qed

text \<open>
  C8. The bond flag is stored symmetrically, and every operation keeps it so: the
  bond-creation block, a whole pass of the loop body (tensile and shear failure
  included), and \<open>compute\<close>, which on step 0 starts from freshly created tables.
\<close>

theorem bond_flag_symmetry:
  "(sym_bonds st \<longrightarrow> create_bonds cfg w i jj g st = Inr (s1, ign) \<longrightarrow>
      (\<forall>a b. is_cohesive s1 a b = is_cohesive s1 b a)) \<and>
   (sym_bonds st \<longrightarrow> pair_step cfg w i jj jraw st = Inr s2 \<longrightarrow>
      (\<forall>a b. is_cohesive s2 a b = is_cohesive s2 b a)) \<and>
   (update_ntimestep w = 0 \<or> sym_bonds st \<longrightarrow> compute cfg w st = Inr s3 \<longrightarrow>
      (\<forall>a b. is_cohesive s3 a b = is_cohesive s3 b a))"
  using create_bonds_sym[of cfg w i jj g st s1 ign] pair_step_sym[of cfg w i jj jraw st s2]
    compute_sym[of cfg w st s3]
  unfolding sym_bonds_def by blast


theorem bond_flag_symmetry_witness:
  "sym_bonds (ex_state True 0 0) \<and>
   (\<exists>s1 ign. create_bonds (ex_cfg 1) (ex_world 0 2) 0 0 (pair_geom (ex_world 0 2) 0 1)
        (ex_state True 0 0) = Inr (s1, ign) \<and> is_cohesive s1 0 1 = is_cohesive s1 1 0) \<and>
   (\<exists>s2. pair_step (ex_cfg 1) (ex_world 1 3) 0 0 1 (ex_state True 0 0) = Inr s2 \<and>
        is_cohesive s2 0 1 = is_cohesive s2 1 0) \<and>
   update_ntimestep (ex_world 0 2) = 0 \<and>
   (\<exists>s3. compute (ex_cfg 1) (ex_world 0 2) (ex_state True 0 0) = Inr s3 \<and>
        is_cohesive s3 0 1 = is_cohesive s3 1 0)"
proof -
  let ?st = "ex_state True 0 0"
  have sy: "sym_bonds ?st" by (rule ex_sym)
  have ts: "update_ntimestep (ex_world 0 2) = 0" by (simp add: ex_simps)
  from ex_formation_bonds obtain s1 ign where
    cb: "create_bonds (ex_cfg 1) (ex_world 0 2) 0 0 (pair_geom (ex_world 0 2) 0 1) ?st
           = Inr (s1, ign)" by blast
  from ex_tensile_step obtain s2 where
    ps: "pair_step (ex_cfg 1) (ex_world 1 3) 0 0 1 ?st = Inr s2" by blast
  from ex_formation_compute obtain s3 where
    co: "compute (ex_cfg 1) (ex_world 0 2) ?st = Inr s3" by blast
  have "is_cohesive s1 0 1 = is_cohesive s1 1 0"
    using bond_flag_symmetry[where st = ?st and cfg = "ex_cfg 1" and w = "ex_world 0 2"
        and i = 0 and jj = 0 and g = "pair_geom (ex_world 0 2) 0 1" and ?s1.0 = s1 and ign = ign]
      sy cb by blast
  moreover have "is_cohesive s2 0 1 = is_cohesive s2 1 0"
    using bond_flag_symmetry[where st = ?st and cfg = "ex_cfg 1" and w = "ex_world 1 3"
        and i = 0 and jj = 0 and jraw = 1 and ?s2.0 = s2] sy ps
    by blast
  moreover have "is_cohesive s3 0 1 = is_cohesive s3 1 0"
    using bond_flag_symmetry[where st = ?st and cfg = "ex_cfg 1" and w = "ex_world 0 2"
        and ?s3.0 = s3] ts co
    by blast
  ultimately show ?thesis using sy ts cb ps co by blast
qed

text \<open>
  C6. Whenever the pass owns the contribution to atom \<open>j\<close> (\<open>newton_pair\<close> set or
  \<open>j < nlocal\<close>), what it adds to the force on \<open>j\<close> is the negation of what it adds
  to the force on \<open>i\<close>, in every component.
\<close>

theorem newton_third_law:
  assumes "pair_step cfg w i jj jraw st = Inr st'"
    and "j = jraw AND NEIGHMASK w"
    and "force_newton_pair w \<noteq> 0 \<or> j < atom_nlocal w"
  shows "atom_f st' j c - atom_f st j c = - (atom_f st' i c - atom_f st i c)"
proof -
  let ?g = "pair_geom w i j"
  from pair_step_Inr[OF assms(1)] obtain s3 ign where
    pf: "pre_force cfg w i jj j st = Inr (s3, ign)" and
    fe: "ign \<noteq> - 1 \<Longrightarrow> force_eval cfg w i j jj ?g s3 = Inr st'" and
    sk: "ign = - 1 \<Longrightarrow> st' = s3"
    unfolding assms(2) by (metis (full_types))
  have a: "atom_f s3 = atom_f st" using pf by (rule pre_force_frame)
  show ?thesis
  proof (cases "ign = - 1")
    case True
    then show ?thesis using a sk by simp
  next
    case False
    then show ?thesis using force_eval_newton[OF fe assms(3)] a by simp
  qed
qed


theorem newton_third_law_witness:
  "(1::int) = 1 AND NEIGHMASK (ex_world 1 1) \<and>
   force_newton_pair (ex_world 1 1) \<noteq> 0 \<and>
   (\<exists>st'. pair_step (ex_cfg (1 / 2)) (ex_world 1 1) 0 0 1 (ex_state False 0 1) = Inr st' \<and>
      atom_f st' 0 0 - atom_f (ex_state False 0 1) 0 0 = - 1 \<and>
      atom_f st' 1 0 - atom_f (ex_state False 0 1) 1 0
        = - (atom_f st' 0 0 - atom_f (ex_state False 0 1) 0 0))"
proof -
  let ?w = "ex_world 1 1" and ?st = "ex_state False 0 1"
  have h1: "(1::int) = 1 AND NEIGHMASK ?w" by (simp add: ex_simps)
  have h2: "force_newton_pair ?w \<noteq> 0 \<or> 1 < atom_nlocal ?w" by (simp add: ex_simps)
  from ex_overlap_step obtain st' where
    ps: "pair_step (ex_cfg (1 / 2)) ?w 0 0 1 ?st = Inr st'" and f: "atom_f st' 0 0 = - 1"
    by blast
  have "atom_f st' 1 0 - atom_f ?st 1 0 = - (atom_f st' 0 0 - atom_f ?st 0 0)"
    using ps h1 h2 by (rule newton_third_law)
  then show ?thesis using h1 ps f by (auto simp: ex_simps)
qed

text \<open>
  C7, as the code has it. With \<open>del = x[i] - x[j]\<close>, \<open>r\<close> the distance and
  \<open>Fs = (fs1, fs2, fs3)\<close> the tangential force that the rescaling step returns, a
  force evaluation adds \<open>- radius[i] * (del \<times> Fs) / r\<close> to the torque on atom
  \<open>i\<close> and, when it owns the contribution to \<open>j \<noteq> i\<close>, adds
  \<open>- radius[j] * (del \<times> Fs) / r\<close> to the torque on atom \<open>j\<close>: the same sign on
  both atoms, each scaled by its own radius.
\<close>

theorem torque_deltas:
  assumes "force_eval cfg w i j jj g st = Inr st'" and "i \<noteq> j"
    and "force_newton_pair w \<noteq> 0 \<or> j < atom_nlocal w"
  shows "\<exists>k s1 shrmag fsv s2 fs1 fs2 fs3.
           kinematics cfg w i j g st = Inr k \<and>
           shear_update cfg w i jj g k st = (s1, shrmag, fsv) \<and>
           rescale cfg i jj g k shrmag fsv s1 = Inr (s2, fs1, fs2, fs3) \<and>
           atom_torque st' i 0 - atom_torque st i 0
             = - (radi g * ((dely g * fs3 - delz g * fs2) / r g)) \<and>
           atom_torque st' i 1 - atom_torque st i 1
             = - (radi g * ((delz g * fs1 - delx g * fs3) / r g)) \<and>
           atom_torque st' i 2 - atom_torque st i 2
             = - (radi g * ((delx g * fs2 - dely g * fs1) / r g)) \<and>
           atom_torque st' j 0 - atom_torque st j 0
             = - (radj g * ((dely g * fs3 - delz g * fs2) / r g)) \<and>
           atom_torque st' j 1 - atom_torque st j 1
             = - (radj g * ((delz g * fs1 - delx g * fs3) / r g)) \<and>
           atom_torque st' j 2 - atom_torque st j 2
             = - (radj g * ((delx g * fs2 - dely g * fs1) / r g))"
proof -
  from force_eval_Inr[OF assms(1)] obtain k s1 shrmag fsv s2 fsv' where
    ki: "kinematics cfg w i j g st = Inr k" and
    su: "shear_update cfg w i jj g k st = (s1, shrmag, fsv)" and
    rs: "rescale cfg i jj g k shrmag fsv s1 = Inr (s2, fsv')" and
    st': "st' = accumulate w i j g k fsv' s2"
    by blast
  obtain fs1 fs2 fs3 where fsv': "fsv' = (fs1, fs2, fs3)" by (cases fsv') auto
  have t: "atom_torque s2 = atom_torque st"
    using shear_update_frame(3)[OF su] rescale_frame(2)[OF rs] by simp
  have "atom_torque st' i 0 - atom_torque st i 0
             = - (radi g * ((dely g * fs3 - delz g * fs2) / r g)) \<and>
        atom_torque st' i 1 - atom_torque st i 1
             = - (radi g * ((delz g * fs1 - delx g * fs3) / r g)) \<and>
        atom_torque st' i 2 - atom_torque st i 2
             = - (radi g * ((delx g * fs2 - dely g * fs1) / r g)) \<and>
        atom_torque st' j 0 - atom_torque st j 0
             = - (radj g * ((dely g * fs3 - delz g * fs2) / r g)) \<and>
        atom_torque st' j 1 - atom_torque st j 1
             = - (radj g * ((delz g * fs1 - delx g * fs3) / r g)) \<and>
        atom_torque st' j 2 - atom_torque st j 2
             = - (radj g * ((delx g * fs2 - dely g * fs1) / r g))"
    using kinematics_rinv(2)[OF ki]
    by (simp add: st' fsv' t accumulate_torque_i[OF assms(2)] accumulate_torque_j[OF assms(2,3)])
  then show ?thesis using ki su rs[unfolded fsv'] by blast
qed

theorem torque_deltas_witness:
  "(0::int) \<noteq> 1 \<and> force_newton_pair (ex_world 1 1) \<noteq> 0 \<and>
   (\<exists>st'. force_eval (ex_cfg (1 / 2)) (ex_world 1 1) 0 1 0 (pair_geom (ex_world 1 1) 0 1)
            ((ex_state False 0 1)\<lparr>m_D := 1\<rparr>) = Inr st' \<and>
      atom_torque st' 0 2 - atom_torque ((ex_state False 0 1)\<lparr>m_D := 1\<rparr>) 0 2 = - (1 / 2) \<and>
      atom_torque st' 1 2 - atom_torque ((ex_state False 0 1)\<lparr>m_D := 1\<rparr>) 1 2 = - (1 / 2))"
proof -
  let ?k = "\<lparr>rinv = 1, rsqinv = 1, vnnr = 0, meff = 1 / 2, ccel = 1,
             vtr1 = 0, vtr2 = 0, vtr3 = (0::real)\<rparr>"
  let ?g = "pair_geom (ex_world 1 1) 0 1"
  let ?st = "(ex_state False 0 1)\<lparr>m_D := 1\<rparr>"
  let ?c = "ex_cfg (1 / 2)"
  let ?w = "ex_world 1 1"
  have h2: "(0::int) \<noteq> 1" by simp
  have h3: "force_newton_pair ?w \<noteq> 0 \<or> 1 < atom_nlocal ?w" by (simp add: ex_simps)
  have ki: "kinematics ?c ?w 0 1 ?g ?st = Inr ?k" by (rule ex_overlap_kin)
  note su = ex_overlap_shear[of "1 / 2"]
  note rs = ex_overlap_rescale
  have "\<exists>st'. force_eval ?c ?w 0 1 0 ?g ?st = Inr st'"
    unfolding force_eval_Inr_iff using ki su rs by blast
  then obtain st' where fe: "force_eval ?c ?w 0 1 0 ?g ?st = Inr st'" by blast
  from torque_deltas[OF fe h2 h3] obtain k s1 shrmag fsv s2 fs1 fs2 fs3 where
    a: "kinematics ?c ?w 0 1 ?g ?st = Inr k"
      "shear_update ?c ?w 0 0 ?g k ?st = (s1, shrmag, fsv)"
      "rescale ?c 0 0 ?g k shrmag fsv s1 = Inr (s2, fs1, fs2, fs3)" and
    b: "atom_torque st' 0 2 - atom_torque ?st 0 2
             = - (radi ?g * ((delx ?g * fs2 - dely ?g * fs1) / r ?g))"
       "atom_torque st' 1 2 - atom_torque ?st 1 2
             = - (radj ?g * ((delx ?g * fs2 - dely ?g * fs1) / r ?g))"
    by blast
  have k: "k = ?k" using a(1) ki by simp
  have "fs1 = 0 \<and> fs2 = - (1 / 2)" using a(2,3) su rs unfolding k by simp
  then have "atom_torque st' 0 2 - atom_torque ?st 0 2 = - (1 / 2)"
    "atom_torque st' 1 2 - atom_torque ?st 1 2 = - (1 / 2)"
    using b by (simp_all add: ex_simps)
  then show ?thesis using h2 h3 fe by (auto simp: ex_simps)
qed

text \<open>
  C7, as the claim has it. In the pass of the two-atom configuration with overlap 1 and
  stored shear displacement \<open>(0, 1, 0)\<close> the torque of both atoms changes by
  \<open>- 1/2\<close> about the third axis: the change on \<open>j\<close> is equal to the change on
  \<open>i\<close>, not opposite to it.
\<close>

theorem torque_opposite_sign_counterexample:
  "\<not> isl (pair_step (ex_cfg (1 / 2)) (ex_world 1 1) 0 0 1 (ex_state False 0 1)) \<and>
   atom_torque (projr (pair_step (ex_cfg (1 / 2)) (ex_world 1 1) 0 0 1 (ex_state False 0 1))) 0 2
     - atom_torque (ex_state False 0 1) 0 2 = - (1 / 2) \<and>
   atom_torque (projr (pair_step (ex_cfg (1 / 2)) (ex_world 1 1) 0 0 1 (ex_state False 0 1))) 1 2
     - atom_torque (ex_state False 0 1) 1 2 = - (1 / 2) \<and>
   atom_torque (projr (pair_step (ex_cfg (1 / 2)) (ex_world 1 1) 0 0 1 (ex_state False 0 1))) 1 2
     - atom_torque (ex_state False 0 1) 1 2
   \<noteq> - (atom_torque (projr (pair_step (ex_cfg (1 / 2)) (ex_world 1 1) 0 0 1
            (ex_state False 0 1))) 0 2 - atom_torque (ex_state False 0 1) 0 2)"
proof -
  from ex_overlap_step obtain s where
    "pair_step (ex_cfg (1 / 2)) (ex_world 1 1) 0 0 1 (ex_state False 0 1) = Inr s"
    "atom_torque s 0 2 = - (1 / 2)" "atom_torque s 1 2 = - (1 / 2)"
    by blast
  then show ?thesis by (simp add: ex_simps)
qed

text \<open>
  C9. When the magnitude of the tangential force is strictly below the limit
  (\<open>xmu * |ccel * r|\<close>, plus \<open>pi * radmin * _c\<close> for a bonded pair), the rescaling step
  returns the state and the three force components as it received them, and the force
  evaluation ends with the shear displacement that the shear update stored.
\<close>

theorem rescale_below_limit:
  assumes "kinematics cfg w i j g st = Inr k"
    and "shear_update cfg w i jj g k st = (s1, shrmag, fs1, fs2, fs3)"
    and "Fmax = xmu cfg * \<bar>ccel k * r g\<bar>
                + (if is_cohesive s1 (ID1 g - 1) (ID2 g - 1) then pi * radmin g * m_c cfg else 0)"
    and "sqrt (fs1 * fs1 + fs2 * fs2 + fs3 * fs3) < Fmax"
  shows "rescale cfg i jj g k shrmag (fs1, fs2, fs3) s1 = Inr (s1, fs1, fs2, fs3) \<and>
         force_eval cfg w i j jj g st = Inr (accumulate w i j g k (fs1, fs2, fs3) s1) \<and>
         firstvalue (accumulate w i j g k (fs1, fs2, fs3) s1) = firstvalue s1"
proof -
  have "sqrt (fs1 * fs1 + fs2 * fs2 + fs3 * fs3) < fn_limit cfg g k s1"
    using assms(3,4) by (auto simp: fn_limit_def split: if_splits)
  then have rs: "rescale cfg i jj g k shrmag (fs1, fs2, fs3) s1 = Inr (s1, fs1, fs2, fs3)"
    by (rule rescale_below)
  then show ?thesis
    using assms(1,2) by (simp add: force_eval_def accumulate_frame)
qed

theorem rescale_below_limit_witness:
  "kinematics (ex_cfg 2) (ex_world 1 1) 0 1 (pair_geom (ex_world 1 1) 0 1)
      ((ex_state False 0 1)\<lparr>m_D := 1\<rparr>)
     = Inr \<lparr>rinv = 1, rsqinv = 1, vnnr = 0, meff = 1 / 2, ccel = 1, vtr1 = 0, vtr2 = 0, vtr3 = 0\<rparr> \<and>
   sqrt (0 * 0 + (- 1) * (- 1) + 0 * 0) < (2::real) \<and>
   (\<exists>s1 st'. shear_update (ex_cfg 2) (ex_world 1 1) 0 0 (pair_geom (ex_world 1 1) 0 1)
        \<lparr>rinv = 1, rsqinv = 1, vnnr = 0, meff = 1 / 2, ccel = 1, vtr1 = 0, vtr2 = 0, vtr3 = 0\<rparr>
        ((ex_state False 0 1)\<lparr>m_D := 1\<rparr>) = (s1, 1, 0, - 1, 0) \<and>
      rescale (ex_cfg 2) 0 0 (pair_geom (ex_world 1 1) 0 1)
        \<lparr>rinv = 1, rsqinv = 1, vnnr = 0, meff = 1 / 2, ccel = 1, vtr1 = 0, vtr2 = 0, vtr3 = 0\<rparr>
        1 (0, - 1, 0) s1 = Inr (s1, 0, - 1, 0) \<and>
      force_eval (ex_cfg 2) (ex_world 1 1) 0 1 0 (pair_geom (ex_world 1 1) 0 1)
        ((ex_state False 0 1)\<lparr>m_D := 1\<rparr>) = Inr st' \<and>
      history st' 0 0 1 = history s1 0 0 1 \<and> history s1 0 0 1 = 1)"
proof -
  let ?k = "\<lparr>rinv = 1, rsqinv = 1, vnnr = 0, meff = 1 / 2, ccel = 1,
             vtr1 = 0, vtr2 = 0, vtr3 = (0::real)\<rparr>"
  let ?g = "pair_geom (ex_world 1 1) 0 1"
  let ?st = "(ex_state False 0 1)\<lparr>m_D := 1\<rparr>"
  let ?s1 = "history_set 0 0 2 0 (history_set 0 0 1 1 (history_set 0 0 0 0
      (history_set 0 0 2 0 (history_set 0 0 1 1 (history_set 0 0 0 0
         (touch_set 0 0 1 ?st))))))"
  have h1: "kinematics (ex_cfg 2) (ex_world 1 1) 0 1 ?g ?st = Inr ?k"
    by (rule ex_overlap_kin)
  have h2: "shear_update (ex_cfg 2) (ex_world 1 1) 0 0 ?g ?k ?st = (?s1, 1, 0, - 1, 0)"
    by (rule ex_overlap_shear)
  have h3: "(2::real) = xmu (ex_cfg 2) * \<bar>ccel ?k * r ?g\<bar>
                + (if is_cohesive ?s1 (ID1 ?g - 1) (ID2 ?g - 1)
                   then pi * radmin ?g * m_c (ex_cfg 2) else 0)"
    by (simp add: ex_simps)
  have h4: "sqrt (0 * 0 + (- 1) * (- 1) + 0 * 0) < (2::real)" by simp
  have h5: "history ?s1 0 0 1 = 1" by (simp add: history_def set2_apply)
  from rescale_below_limit[OF h1 h2 h3 h4]
  show ?thesis using h1 h2 h4 h5 by (simp add: history_def)
qed

text \<open>
  C4, as the code has it. For an unbonded pair whose tangential force magnitude
  \<open>fs\<close> has reached the Coulomb limit \<open>fn = xmu * |ccel * r|\<close> (with
  \<open>xmu \<ge> 0\<close>): with \<open>shrmag \<noteq> 0\<close>, \<open>fs \<noteq> 0\<close> and \<open>kt \<noteq> 0\<close> every component
  of the force is multiplied by \<open>fn / fs\<close>, so that its magnitude becomes \<open>fn\<close>, and
  every component \<open>h\<close> of the shear displacement becomes
  \<open>(fn / fs) * (h + meff * gammat * vtr / kt) - meff * gammat * vtr / kt\<close>; with
  \<open>shrmag = 0\<close> the force is set to zero. In both cases the bond flags stay as they
  were (false for this pair) and the counters \<open>_history[5]\<close> and \<open>_history[6]\<close> of
  the slot keep their values.
\<close>

theorem rescale_unbonded:
  assumes "\<not> is_cohesive st (ID1 g - 1) (ID2 g - 1)"
    and "fs = sqrt (fs1 * fs1 + fs2 * fs2 + fs3 * fs3)"
    and "fn = xmu cfg * \<bar>ccel k * r g\<bar>"
    and "fs \<ge> fn" and "0 \<le> xmu cfg"
  shows "(shrmag \<noteq> 0 \<and> fs \<noteq> 0 \<and> kt cfg \<noteq> 0 \<longrightarrow>
           (\<exists>st'. rescale cfg i jj g k shrmag (fs1, fs2, fs3) st
                    = Inr (st', fs1 * (fn / fs), fs2 * (fn / fs), fs3 * (fn / fs)) \<and>
              sqrt (fs1 * (fn / fs) * (fs1 * (fn / fs)) + fs2 * (fn / fs) * (fs2 * (fn / fs))
                    + fs3 * (fn / fs) * (fs3 * (fn / fs))) = fn \<and>
              history st' i jj 0 = (fn / fs) * (history st i jj 0 + meff k * gammat cfg * vtr1 k / kt cfg)
                                     - meff k * gammat cfg * vtr1 k / kt cfg \<and>
              history st' i jj 1 = (fn / fs) * (history st i jj 1 + meff k * gammat cfg * vtr2 k / kt cfg)
                                     - meff k * gammat cfg * vtr2 k / kt cfg \<and>
              history st' i jj 2 = (fn / fs) * (history st i jj 2 + meff k * gammat cfg * vtr3 k / kt cfg)
                                     - meff k * gammat cfg * vtr3 k / kt cfg \<and>
              is_cohesive st' = is_cohesive st \<and>
              history st' i jj 5 = history st i jj 5 \<and>
              history st' i jj 6 = history st i jj 6)) \<and>
         (shrmag = 0 \<longrightarrow>
            rescale cfg i jj g k shrmag (fs1, fs2, fs3) st = Inr (st, 0, 0, 0))"
proof (intro conjI impI)
  assume a: "shrmag \<noteq> 0 \<and> fs \<noteq> 0 \<and> kt cfg \<noteq> 0"
  have fn0: "0 \<le> fn" using assms(3,5) by simp
  have fs0: "0 < fs" using a assms(2) by (metis less_eq_real_def real_sqrt_ge_zero
        add_nonneg_nonneg zero_le_square)
  have q: "0 \<le> fn / fs" using fn0 fs0 by simp
  have mag: "sqrt (fs1 * (fn / fs) * (fs1 * (fn / fs)) + fs2 * (fn / fs) * (fs2 * (fn / fs))
                    + fs3 * (fn / fs) * (fs3 * (fn / fs))) = fn"
    using scaled_magnitude[OF q, of fs1 fs2 fs3] fs0 assms(2) by simp
  show "\<exists>st'. rescale cfg i jj g k shrmag (fs1, fs2, fs3) st
                    = Inr (st', fs1 * (fn / fs), fs2 * (fn / fs), fs3 * (fn / fs)) \<and>
              sqrt (fs1 * (fn / fs) * (fs1 * (fn / fs)) + fs2 * (fn / fs) * (fs2 * (fn / fs))
                    + fs3 * (fn / fs) * (fs3 * (fn / fs))) = fn \<and>
              history st' i jj 0 = (fn / fs) * (history st i jj 0 + meff k * gammat cfg * vtr1 k / kt cfg)
                                     - meff k * gammat cfg * vtr1 k / kt cfg \<and>
              history st' i jj 1 = (fn / fs) * (history st i jj 1 + meff k * gammat cfg * vtr2 k / kt cfg)
                                     - meff k * gammat cfg * vtr2 k / kt cfg \<and>
              history st' i jj 2 = (fn / fs) * (history st i jj 2 + meff k * gammat cfg * vtr3 k / kt cfg)
                                     - meff k * gammat cfg * vtr3 k / kt cfg \<and>
              is_cohesive st' = is_cohesive st \<and>
              history st' i jj 5 = history st i jj 5 \<and>
              history st' i jj 6 = history st i jj 6"
    using rescale_unbonded_scaled[OF assms(1,2,3,4), of shrmag i jj] a mag
    by (simp add: history_history_set)
next
  assume "shrmag = 0"
  then show "rescale cfg i jj g k shrmag (fs1, fs2, fs3) st = Inr (st, 0, 0, 0)"
    using rescale_unbonded_zero[where st = st and g = g and cfg = cfg and k = k] assms by simp
qed


theorem rescale_unbonded_witness:
  "\<not> is_cohesive (ex_state False 0 1) (ID1 (pair_geom (ex_world 1 1) 0 1) - 1)
        (ID2 (pair_geom (ex_world 1 1) 0 1) - 1) \<and>
   (1::real) = sqrt (0 * 0 + (- 1) * (- 1) + 0 * 0) \<and>
   (1 / 2 :: real) = xmu (ex_cfg (1 / 2)) * \<bar>1 * r (pair_geom (ex_world 1 1) 0 1)\<bar> \<and>
   (1::real) \<ge> 1 / 2 \<and> 0 \<le> xmu (ex_cfg (1 / 2)) \<and> kt (ex_cfg (1 / 2)) \<noteq> 0 \<and>
   (\<exists>st'. rescale (ex_cfg (1 / 2)) 0 0 (pair_geom (ex_world 1 1) 0 1)
        \<lparr>rinv = 1, rsqinv = 1, vnnr = 0, meff = 1 / 2, ccel = 1, vtr1 = 0, vtr2 = 0, vtr3 = 0\<rparr>
        1 (0, - 1, 0) (ex_state False 0 1) = Inr (st', 0, - (1 / 2), 0) \<and>
      history st' 0 0 1 = 1 / 2 \<and>
      is_cohesive st' = is_cohesive (ex_state False 0 1) \<and>
      history st' 0 0 5 = history (ex_state False 0 1) 0 0 5 \<and>
      history st' 0 0 6 = history (ex_state False 0 1) 0 0 6) \<and>
   rescale (ex_cfg (1 / 2)) 0 0 (pair_geom (ex_world 1 1) 0 1)
        \<lparr>rinv = 1, rsqinv = 1, vnnr = 0, meff = 1 / 2, ccel = 1, vtr1 = 0, vtr2 = 0, vtr3 = 0\<rparr>
        0 (0, - 1, 0) (ex_state False 0 1) = Inr (ex_state False 0 1, 0, 0, 0)"
proof -
  let ?k = "\<lparr>rinv = 1, rsqinv = 1, vnnr = 0, meff = 1 / 2, ccel = 1,
             vtr1 = 0, vtr2 = 0, vtr3 = (0::real)\<rparr>"
  let ?g = "pair_geom (ex_world 1 1) 0 1"
  let ?st = "ex_state False 0 1"
  let ?c = "ex_cfg (1 / 2)"
  have h1: "\<not> is_cohesive ?st (ID1 ?g - 1) (ID2 ?g - 1)" by (simp add: ex_simps)
  have h2: "(1::real) = sqrt (0 * 0 + (- 1) * (- 1) + 0 * 0)" by simp
  have h3: "(1 / 2 :: real) = xmu ?c * \<bar>ccel ?k * r ?g\<bar>" by (simp add: ex_simps)
  have h4: "(1::real) \<ge> 1 / 2" by simp
  have h5: "0 \<le> xmu ?c" by (simp add: ex_simps)
  have h6: "kt ?c \<noteq> 0" by (simp add: ex_simps)
  have hist: "history ?st 0 0 1 = 1" by (simp add: history_def ex_simps)
  note t = rescale_unbonded[OF h1 h2 h3 h4 h5]
  from t[of 1 0 0] h6 hist obtain st' where
    "rescale ?c 0 0 ?g ?k 1 (0, - 1, 0) ?st = Inr (st', 0, - (1 / 2), 0)"
    "history st' 0 0 1 = 1 / 2" "is_cohesive st' = is_cohesive ?st"
    "history st' 0 0 5 = history ?st 0 0 5" "history st' 0 0 6 = history ?st 0 0 6"
    by (auto simp: ex_simps)
  moreover have "rescale ?c 0 0 ?g ?k 0 (0, - 1, 0) ?st = Inr (?st, 0, 0, 0)"
    using t[of 0 0 0] by simp
  ultimately show ?thesis using h1 h2 h3 h5 h6 by (auto simp: ex_simps)
qed

text \<open>
  C4, as the claim has it. Two unbonded pairs at the limit for which the rescaling
  branch does not scale anything. In the first the centres are 2 apart (the spheres
  touch) and the stored shear displacement \<open>(1, 0, 0)\<close> lies along the line of
  centres: \<open>shrmag\<close> is 1, the rotated displacement and the force are zero,
  \<open>fs = 0 \<ge> fn = 0\<close>, and the factor \<open>fn / fs\<close> is \<open>0 / 0\<close>; the whole pass ends
  in this division. In the second \<open>kt = 0\<close>, \<open>fs = 1 \<ge> fn = 1/2\<close>, and the new
  displacement divides by \<open>kt\<close>.
\<close>

theorem rescale_unbonded_counterexample:
  "pre_force (ex_cfg 1) (ex_world 1 2) 0 0 1 (ex_state False 1 0)
     = Inr ((ex_state False 1 0)\<lparr>m_D := 0\<rparr>, 1) \<and>
   \<not> is_cohesive ((ex_state False 1 0)\<lparr>m_D := 0\<rparr>) (ID1 (pair_geom (ex_world 1 2) 0 1) - 1)
        (ID2 (pair_geom (ex_world 1 2) 0 1) - 1) \<and>
   r (pair_geom (ex_world 1 2) 0 1) \<le> radsum (pair_geom (ex_world 1 2) 0 1) \<and>
   kinematics (ex_cfg 1) (ex_world 1 2) 0 1 (pair_geom (ex_world 1 2) 0 1)
     ((ex_state False 1 0)\<lparr>m_D := 0\<rparr>) =
     Inr \<lparr>rinv = 1 / 2, rsqinv = 1 / 4, vnnr = 0, meff = 1 / 2, ccel = 0,
           vtr1 = 0, vtr2 = 0, vtr3 = 0\<rparr> \<and>
   shear_update (ex_cfg 1) (ex_world 1 2) 0 0 (pair_geom (ex_world 1 2) 0 1)
     \<lparr>rinv = 1 / 2, rsqinv = 1 / 4, vnnr = 0, meff = 1 / 2, ccel = 0,
      vtr1 = 0, vtr2 = 0, vtr3 = 0\<rparr>
     ((ex_state False 1 0)\<lparr>m_D := 0\<rparr>) =
   (history_set 0 0 2 0 (history_set 0 0 1 0 (history_set 0 0 0 0
      (history_set 0 0 2 0 (history_set 0 0 1 0 (history_set 0 0 0 1
         (touch_set 0 0 1 ((ex_state False 1 0)\<lparr>m_D := 0\<rparr>))))))),
    1, 0, 0, 0) \<and>
   sqrt (0 * 0 + 0 * 0 + 0 * 0) \<ge> xmu (ex_cfg 1) * \<bar>0 * r (pair_geom (ex_world 1 2) 0 1)\<bar> \<and>
   rescale (ex_cfg 1) 0 0 (pair_geom (ex_world 1 2) 0 1)
     \<lparr>rinv = 1 / 2, rsqinv = 1 / 4, vnnr = 0, meff = 1 / 2, ccel = 0,
      vtr1 = 0, vtr2 = 0, vtr3 = 0\<rparr>
     1 (0, 0, 0)
     (history_set 0 0 2 0 (history_set 0 0 1 0 (history_set 0 0 0 0
        (history_set 0 0 2 0 (history_set 0 0 1 0 (history_set 0 0 0 1
           (touch_set 0 0 1 ((ex_state False 1 0)\<lparr>m_D := 0\<rparr>)))))))) = Inl DivByZero \<and>
   pair_step (ex_cfg 1) (ex_world 1 2) 0 0 1 (ex_state False 1 0) = Inl DivByZero \<and>
   \<not> is_cohesive (ex_state False 0 1) (ID1 (pair_geom (ex_world 1 1) 0 1) - 1)
        (ID2 (pair_geom (ex_world 1 1) 0 1) - 1) \<and>
   sqrt (0 * 0 + (- 1) * (- 1) + 0 * 0)
     \<ge> xmu ((ex_cfg (1 / 2))\<lparr>kt := 0\<rparr>) * \<bar>1 * r (pair_geom (ex_world 1 1) 0 1)\<bar> \<and>
   rescale ((ex_cfg (1 / 2))\<lparr>kt := 0\<rparr>) 0 0 (pair_geom (ex_world 1 1) 0 1)
     \<lparr>rinv = 1, rsqinv = 1, vnnr = 0, meff = 1 / 2, ccel = 1, vtr1 = 0, vtr2 = 0, vtr3 = 0\<rparr>
     1 (0, - 1, 0) (ex_state False 0 1) = Inl DivByZero"
  using ex_normal_shear_pre_force ex_normal_shear_kin ex_normal_shear_update
    ex_normal_shear_rescale ex_normal_shear_step ex_zero_kt_rescale
  by (simp add: ex_simps ex_cfg_def)

text \<open>
  C3, as the code has it. In the force evaluation the divisions \<open>1/r\<close>, \<open>1/rsq\<close>
  and \<open>mi*mj/(mi+mj)\<close> have no guard: they are defined exactly when the centres do not
  coincide and the mass sum is not zero. The rescaling step divides by \<open>fs\<close> and by
  \<open>kt\<close> under the guard \<open>shrmag \<noteq> 0\<close>: it is defined exactly when the force is
  below the limit, or \<open>shrmag = 0\<close>, or both \<open>fs\<close> and \<open>kt\<close> are non-zero.
  At or above the limit with \<open>shrmag = 0\<close> the tangential force is set to zero.
  The force evaluation returns a state exactly when both stages do, and it fails in no
  other way than by a division by zero.
\<close>

theorem division_guards:
  assumes "g = pair_geom w i j"
  shows "((\<exists>k. kinematics cfg w i j g st = Inr k)
            \<longleftrightarrow> (r g \<noteq> 0 \<and> pair_mi w i + pair_mi w j \<noteq> 0)) \<and>
         ((\<exists>res. rescale cfg i jj g k shrmag (fs1, fs2, fs3) s1 = Inr res)
            \<longleftrightarrow> (sqrt (fs1 * fs1 + fs2 * fs2 + fs3 * fs3) < fn_limit cfg g k s1 \<or> shrmag = 0 \<or>
                 (sqrt (fs1 * fs1 + fs2 * fs2 + fs3 * fs3) \<noteq> 0 \<and> kt cfg \<noteq> 0))) \<and>
         (sqrt (fs1 * fs1 + fs2 * fs2 + fs3 * fs3) \<ge> fn_limit cfg g k s1 \<and> shrmag = 0
            \<longrightarrow> (\<exists>s2. rescale cfg i jj g k shrmag (fs1, fs2, fs3) s1 = Inr (s2, 0, 0, 0))) \<and>
         ((\<exists>st'. force_eval cfg w i j jj g st = Inr st') \<longleftrightarrow>
            (\<exists>k s1 shrmag fsv res. kinematics cfg w i j g st = Inr k \<and>
               shear_update cfg w i jj g k st = (s1, shrmag, fsv) \<and>
               rescale cfg i jj g k shrmag fsv s1 = Inr res)) \<and>
         (force_eval cfg w i j jj g st = Inl e \<longrightarrow> e = DivByZero)"
  using kinematics_Inr_iff[of cfg w i j g st] pair_geom_rsq[of w i j]
    rescale_Inr_iff[of cfg i jj g k shrmag fs1 fs2 fs3 s1]
    rescale_fallback[of cfg g k s1 fs1 fs2 fs3 shrmag i jj]
    force_eval_Inr_iff[of cfg w i j jj g st] force_eval_error[of cfg w i j jj g st e]
  unfolding assms by blast

text \<open>
  C3, as the claim has it. With both centres at the same point the pair reaches the
  force evaluation (\<open>_ignore = 1\<close>) and \<open>1.0/r\<close> divides by zero. With the centres
  2 apart and a stored shear displacement \<open>(1, 0, 0)\<close> along the line of centres,
  \<open>shrmag\<close> is 1 but the rotated displacement and the force are zero, so that
  \<open>fn/fs\<close> is \<open>0/0\<close> behind the guard \<open>shrmag != 0.0\<close>.
\<close>

theorem division_by_zero_counterexample:
  "r (pair_geom (ex_world 1 0) 0 1) = 0 \<and>
   pre_force (ex_cfg 1) (ex_world 1 0) 0 0 1 (ex_state False 0 0)
     = Inr ((ex_state False 0 0)\<lparr>m_D := 2\<rparr>, 1) \<and>
   pair_step (ex_cfg 1) (ex_world 1 0) 0 0 1 (ex_state False 0 0) = Inl DivByZero \<and>
   r (pair_geom (ex_world 1 2) 0 1) = 2 \<and>
   pre_force (ex_cfg 1) (ex_world 1 2) 0 0 1 (ex_state False 1 0)
     = Inr ((ex_state False 1 0)\<lparr>m_D := 0\<rparr>, 1) \<and>
   pair_step (ex_cfg 1) (ex_world 1 2) 0 0 1 (ex_state False 1 0) = Inl DivByZero"
  using ex_coincident_pre_force ex_coincident_step ex_normal_shear_pre_force
    ex_normal_shear_step
  by (simp add: ex_geom)

theorem division_guards_witness:
  "r (pair_geom (ex_world 1 1) 0 1) \<noteq> 0 \<and>
   pair_mi (ex_world 1 1) 0 + pair_mi (ex_world 1 1) 1 \<noteq> 0 \<and>
   sqrt (0 * 0 + (- 1) * (- 1) + 0 * 0) \<noteq> (0::real) \<and> kt (ex_cfg (1 / 2)) \<noteq> 0 \<and>
   (\<exists>k. kinematics (ex_cfg (1 / 2)) (ex_world 1 1) 0 1 (pair_geom (ex_world 1 1) 0 1)
          ((ex_state False 0 1)\<lparr>m_D := 1\<rparr>) = Inr k) \<and>
   (\<exists>st'. force_eval (ex_cfg (1 / 2)) (ex_world 1 1) 0 1 0 (pair_geom (ex_world 1 1) 0 1)
          ((ex_state False 0 1)\<lparr>m_D := 1\<rparr>) = Inr st')"
proof -
  let ?k = "\<lparr>rinv = 1, rsqinv = 1, vnnr = 0, meff = 1 / 2, ccel = 1,
             vtr1 = 0, vtr2 = 0, vtr3 = (0::real)\<rparr>"
  let ?g = "pair_geom (ex_world 1 1) 0 1"
  let ?st = "(ex_state False 0 1)\<lparr>m_D := 1\<rparr>"
  let ?c = "ex_cfg (1 / 2)"
  let ?s1 = "history_set 0 0 2 0 (history_set 0 0 1 1 (history_set 0 0 0 0
      (history_set 0 0 2 0 (history_set 0 0 1 1 (history_set 0 0 0 0
         (touch_set 0 0 1 ?st))))))"
  note t = division_guards[OF refl, where w = "ex_world 1 1" and i = 0 and j = 1 and cfg = ?c
      and st = ?st and jj = 0 and k = ?k and shrmag = 1 and ?fs1.0 = 0 and ?fs2.0 = "- 1"
      and ?fs3.0 = 0 and ?s1.0 = ?s1]
  have h1: "r ?g \<noteq> 0" by (simp add: ex_simps)
  have h2: "pair_mi (ex_world 1 1) 0 + pair_mi (ex_world 1 1) 1 \<noteq> 0"
    by (simp add: pair_mi_def ex_simps)
  have h3: "sqrt (0 * 0 + (- 1) * (- 1) + 0 * 0) \<noteq> (0::real)" by simp
  have h4: "kt ?c \<noteq> 0" by (simp add: ex_simps)
  have k: "kinematics ?c (ex_world 1 1) 0 1 ?g ?st = Inr ?k" by (rule ex_overlap_kin)
  have su: "shear_update ?c (ex_world 1 1) 0 0 ?g ?k ?st = (?s1, 1, 0, - 1, 0)"
    by (rule ex_overlap_shear)
  have a: "\<exists>k. kinematics ?c (ex_world 1 1) 0 1 ?g ?st = Inr k"
    using t h1 h2 by blast
  have "\<exists>res. rescale ?c 0 0 ?g ?k 1 (0, - 1, 0) ?s1 = Inr res"
    using t h3 h4 by blast
  then have "\<exists>st'. force_eval ?c (ex_world 1 1) 0 1 0 ?g ?st = Inr st'"
    using t k su by blast
  then show ?thesis using h1 h2 h3 h4 a by blast
qed

text \<open>
  C5. The history fix keeps 7 doubles per neighbour slot, and the comment at line 189
  names \<open>_history[5]\<close> and \<open>_history[6]\<close> as the counters of the slot, but
  \<open>_history\<close> is \<open>&allshear[3*jj]\<close>. So \<open>_history[5]\<close> of slot \<open>jj\<close> is the
  cell \<open>_history[2]\<close> of slot \<open>jj + 1\<close>, and \<open>_history[6]\<close> of slot \<open>jj\<close> is
  the cell \<open>_history[0]\<close> of slot \<open>jj + 2\<close>. In the three-atom configuration the
  tensile failure of the pair in slot 0 changes the third shear component of slot 1 from
  0 to 1; the pass of slot 1, an unbonded pair out of contact, then zeroes its shear
  displacement and with it the counter of slot 0.
\<close>

theorem history_slots_overlap:
  "history st i (jj + 1) 2 = history st i jj 5 \<and>
   history st i (jj + 2) 0 = history st i jj 6 \<and>
   list_firstneigh (ex_world3 1 3) 0 = [1, 2] \<and>
   history (ex_state3 True 0 0) 0 1 2 = 0 \<and>
   \<not> isl (pair_step (ex_cfg 1) (ex_world3 1 3) 0 0 1 (ex_state3 True 0 0)) \<and>
   history (projr (pair_step (ex_cfg 1) (ex_world3 1 3) 0 0 1 (ex_state3 True 0 0))) 0 1 2 = 1 \<and>
   \<not> isl (jloop (ex_cfg 1) (ex_world3 1 3) 0 0 [1, 2] (ex_state3 True 0 0)) \<and>
   history (projr (jloop (ex_cfg 1) (ex_world3 1 3) 0 0 [1, 2] (ex_state3 True 0 0))) 0 0 5 = 0"
proof -
  have "history st i (jj + 1) 2 = history st i jj 5" "history st i (jj + 2) 0 = history st i jj 6"
    by (simp_all add: history_def algebra_simps)
  moreover have "history (ex_state3 True 0 0) 0 1 2 = 0"
    by (simp add: history_def ex_state3_simps ex_simps)
  moreover have "history (clear_bond 1 2 (history_set 0 0 5 1
            (unset_contact 0 0 ((ex_state3 True 0 0)\<lparr>m_D := - 1\<rparr>)))) 0 1 2 = 1"
    by (simp add: history_def set2_apply)
  moreover obtain s where
    "jloop (ex_cfg 1) (ex_world3 1 3) 0 0 [1, 2] (ex_state3 True 0 0) = Inr s"
    "history s 0 0 5 = 0"
    using ex_tensile_loop3 by (auto simp: ex_world3_simps)
  ultimately show ?thesis
    by (simp add: ex_tensile_step3 ex_world3_simps)
qed

text \<open>
  C10, as the code has it. \<open>settings\<close> accepts exactly when nine arguments are given,
  every argument that is read denotes a number (\<open>arg[1]\<close> and \<open>arg[3]\<close> may be
  \<open>NULL\<close>, the damping flag is an integer), and \<open>kn\<close>, \<open>kt\<close> after its default,
  \<open>gamman\<close>, the effective \<open>gammat\<close>, \<open>_t\<close>, \<open>_c\<close> and
  \<open>_enlargeFactor\<close> are not negative, \<open>xmu\<close> is in \<open>[0, 10000]\<close> and the damping
  flag is 0 or 1. The effective \<open>gammat\<close> is 0 when the damping flag is 0, whatever was
  supplied, and otherwise the supplied value or, for \<open>NULL\<close>, \<open>0.5 * gamman\<close>;
  \<open>kt\<close> for \<open>NULL\<close> is \<open>kn * 2 / 7\<close>.
\<close>

theorem settings_accepts:
  "(settings numeric inumeric arg = Inr cfg \<longleftrightarrow>
     length arg = 9 \<and>
     (\<exists>kn' kt' gn' gt0 mu' df' t' c' ef'.
        numeric (arg ! 0) = Some kn' \<and>
        (if arg ! 1 = ''NULL'' then kt' = kn' * 2 / 7 else numeric (arg ! 1) = Some kt') \<and>
        numeric (arg ! 2) = Some gn' \<and>
        (if arg ! 3 = ''NULL'' then gt0 = 0.5 * gn' else numeric (arg ! 3) = Some gt0) \<and>
        numeric (arg ! 4) = Some mu' \<and>
        inumeric (arg ! 5) = Some df' \<and>
        numeric (arg ! 6) = Some t' \<and>
        numeric (arg ! 7) = Some c' \<and>
        numeric (arg ! 8) = Some ef' \<and>
        0 \<le> kn' \<and> 0 \<le> kt' \<and> 0 \<le> gn' \<and> 0 \<le> (if df' = 0 then 0 else gt0) \<and>
        0 \<le> mu' \<and> mu' \<le> 10000 \<and> (df' = 0 \<or> df' = 1) \<and>
        0 \<le> t' \<and> 0 \<le> c' \<and> 0 \<le> ef' \<and>
        cfg = \<lparr>kn = kn', kt = kt', gamman = gn', gammat = (if df' = 0 then 0 else gt0),
                xmu = mu', dampflag = df', m_t = t', m_c = c', m_enlargeFactor = ef'\<rparr>)) \<and>
   (settings numeric inumeric arg = Inr cfg \<and> arg ! 1 = ''NULL'' \<longrightarrow>
      kt cfg = 2 / 7 * kn cfg) \<and>
   (settings numeric inumeric arg = Inr cfg \<and> arg ! 3 = ''NULL'' \<and> dampflag cfg \<noteq> 0 \<longrightarrow>
      gammat cfg = 0.5 * gamman cfg) \<and>
   (settings numeric inumeric arg = Inr cfg \<and> dampflag cfg = 0 \<longrightarrow> gammat cfg = 0)"
proof (intro conjI impI)
  show "settings numeric inumeric arg = Inr cfg \<longleftrightarrow>
     length arg = 9 \<and>
     (\<exists>kn' kt' gn' gt0 mu' df' t' c' ef'.
        numeric (arg ! 0) = Some kn' \<and>
        (if arg ! 1 = ''NULL'' then kt' = kn' * 2 / 7 else numeric (arg ! 1) = Some kt') \<and>
        numeric (arg ! 2) = Some gn' \<and>
        (if arg ! 3 = ''NULL'' then gt0 = 0.5 * gn' else numeric (arg ! 3) = Some gt0) \<and>
        numeric (arg ! 4) = Some mu' \<and>
        inumeric (arg ! 5) = Some df' \<and>
        numeric (arg ! 6) = Some t' \<and>
        numeric (arg ! 7) = Some c' \<and>
        numeric (arg ! 8) = Some ef' \<and>
        0 \<le> kn' \<and> 0 \<le> kt' \<and> 0 \<le> gn' \<and> 0 \<le> (if df' = 0 then 0 else gt0) \<and>
        0 \<le> mu' \<and> mu' \<le> 10000 \<and> (df' = 0 \<or> df' = 1) \<and>
        0 \<le> t' \<and> 0 \<le> c' \<and> 0 \<le> ef' \<and>
        cfg = \<lparr>kn = kn', kt = kt', gamman = gn', gammat = (if df' = 0 then 0 else gt0),
                xmu = mu', dampflag = df', m_t = t', m_c = c', m_enlargeFactor = ef'\<rparr>)"
    by (rule settings_Inr_iff)
next
  assume "settings numeric inumeric arg = Inr cfg \<and> arg ! 1 = ''NULL''"
  then show "kt cfg = 2 / 7 * kn cfg"
    unfolding settings_Inr_iff by auto
next
  assume "settings numeric inumeric arg = Inr cfg \<and> arg ! 3 = ''NULL'' \<and> dampflag cfg \<noteq> 0"
  then show "gammat cfg = 0.5 * gamman cfg"
    unfolding settings_Inr_iff by auto
next
  assume "settings numeric inumeric arg = Inr cfg \<and> dampflag cfg = 0"
  then show "gammat cfg = 0"
    unfolding settings_Inr_iff by auto
qed

theorem settings_accepts_witness:
  "settings sample_numeric sample_inumeric
     [''1'', ''NULL'', ''2'', ''NULL'', ''1'', ''1'', ''1'', ''1'', ''1'']
   = Inr \<lparr>kn = 1, kt = 2 / 7, gamman = 2, gammat = 1, xmu = 1, dampflag = 1,
           m_t = 1, m_c = 1, m_enlargeFactor = 1\<rparr> \<and>
   [''1'', ''NULL'', ''2'', ''NULL'', ''1'', ''1'', ''1'', ''1'', ''1''] ! 1 = ''NULL'' \<and>
   kt \<lparr>kn = 1, kt = 2 / 7, gamman = 2, gammat = 1, xmu = 1, dampflag = 1,
       m_t = 1, m_c = 1, m_enlargeFactor = 1\<rparr>
     = 2 / 7 * kn \<lparr>kn = 1, kt = 2 / 7, gamman = 2, gammat = 1, xmu = 1, dampflag = 1,
                   m_t = 1, m_c = 1, m_enlargeFactor = 1\<rparr> \<and>
   settings sample_numeric sample_inumeric
     [''1'', ''1'', ''1'', ''2'', ''1'', ''0'', ''1'', ''1'', ''1'']
   = Inr \<lparr>kn = 1, kt = 1, gamman = 1, gammat = 0, xmu = 1, dampflag = 0,
           m_t = 1, m_c = 1, m_enlargeFactor = 1\<rparr>"
proof -
  let ?a = "[''1'', ''NULL'', ''2'', ''NULL'', ''1'', ''1'', ''1'', ''1'', ''1'']"
  let ?c = "\<lparr>kn = 1, kt = 2 / 7, gamman = 2, gammat = 1, xmu = 1, dampflag = 1,
           m_t = 1, m_c = 1, m_enlargeFactor = (1::real)\<rparr>"
  let ?b = "[''1'', ''1'', ''1'', ''2'', ''1'', ''0'', ''1'', ''1'', ''1'']"
  let ?d = "\<lparr>kn = 1, kt = 1, gamman = 1, gammat = 0, xmu = 1, dampflag = 0,
           m_t = 1, m_c = 1, m_enlargeFactor = (1::real)\<rparr>"
  have a: "settings sample_numeric sample_inumeric ?a = Inr ?c" by (rule ex_settings_null)
  have n: "?a ! 1 = ''NULL''" by simp
  have "kt ?c = 2 / 7 * kn ?c"
    using settings_accepts[of sample_numeric sample_inumeric ?a ?c] a n by blast
  moreover have "settings sample_numeric sample_inumeric ?b = Inr ?d"
    using settings_accepts[of sample_numeric sample_inumeric ?b ?d]
    by (simp add: sample_numeric_def sample_inumeric_def)
  ultimately show ?thesis using a n by blast
qed

text \<open>
  C10, as the claim has it. With a supplied \<open>gammat\<close> of \<open>-1\<close> and the damping flag
  0 the configuration is accepted: \<open>gammat\<close> is set to 0 before the range check.
\<close>

theorem settings_negative_gammat_counterexample:
  "sample_numeric ([''1'', ''1'', ''1'', ''-1'', ''1'', ''0'', ''1'', ''1'', ''1''] ! 3) = Some (- 1) \<and>
   settings sample_numeric sample_inumeric
     [''1'', ''1'', ''1'', ''-1'', ''1'', ''0'', ''1'', ''1'', ''1'']
   = Inr \<lparr>kn = 1, kt = 1, gamman = 1, gammat = 0, xmu = 1, dampflag = 0,
           m_t = 1, m_c = 1, m_enlargeFactor = 1\<rparr>"
  using ex_settings_negative by (simp add: sample_numeric_def)

end
